theory Spec2Isabelle
  imports Main "HOL-Library.Sublist"
begin

section \<open>The HTTP client as the three SDK variants see it\<close>

text \<open>
  The repository holds one small client library three times: \<^verbatim>\<open>src/go/main.go\<close>,
  a later Go revision (\<^verbatim>\<open>src/unnamed/part_000\<close>) and \<^verbatim>\<open>src/typescript/main.ts\<close>.
  Every effect of the code is a call into a library: the HTTP client, the JSON codec,
  the logger and the timer. The model records these calls in a trace, in program order.
  A request is what the SDK hands to the HTTP client; \<open>Timeout\<close> is the client's
  timeout in milliseconds (\<open>None\<close>: the call sets none).
\<close>

record request =
  Method :: string
  URL :: string
  Header :: "(string \<times> string) list"
  Body :: "string option"
  Timeout :: "nat option"

text \<open>
  What the HTTP client gives back: it fails with a library error, or it returns a
  response (status code, the bytes read from the body, and the error reading the body
  ended with, if any).
\<close>

datatype 'e outcome = Failed 'e | Response int string "'e option"

text \<open>
  The log lines of the three files, by the statement that writes them and its arguments
  (the texts differ between Go and TypeScript in letter case only).
\<close>

datatype logline =
    Connected string
  | CouldNotConnect string string
  | UsingDefault
  | RegisterFailed nat string
  | RegisterResponse nat string
  | Calling string string string
  | RawResponse string

datatype event = Sent request | Slept nat | Logged logline

fun sent :: "event list \<Rightarrow> request list" where
  "sent [] = []"
| "sent (Sent r # es) = r # sent es"
| "sent (Slept n # es) = sent es"
| "sent (Logged l # es) = sent es"

fun effects :: "event list \<Rightarrow> event list" where
  "effects [] = []"
| "effects (Logged l # es) = effects es"
| "effects (e # es) = e # effects es"

text \<open>
  The network is any function from the requests made so far and the request at hand to
  an outcome: a scripted mock host and a host that answers by request are both of this
  form.
\<close>

type_synonym 'e transport = "request list \<Rightarrow> request \<Rightarrow> 'e outcome"

definition http_call :: "'e transport \<Rightarrow> request \<Rightarrow> event list \<Rightarrow> 'e outcome \<times> event list" where
  "http_call net r tr = (net (sent tr) r, tr @ [Sent r])"

text \<open>
  Values handed to and returned by the JSON codec: Go's \<^verbatim>\<open>interface{}\<close> and
  TypeScript's \<^verbatim>\<open>any\<close>. \<open>JOther\<close> stands for a value JSON has no form for (a Go channel
  or function, a JavaScript BigInt).
\<close>

datatype jvalue =
    JNull
  | JBool bool
  | JNum int
  | JStr string
  | JArr "jvalue list"
  | JObj "(string \<times> jvalue) list"
  | JOther string

text \<open>Decimal rendering, as \<^verbatim>\<open>%d\<close> and a template literal print a status code.\<close>

fun digits :: "nat \<Rightarrow> string" where
  "digits n = (if n < 10 then [''0123456789'' ! n] else digits (n div 10) @ [''0123456789'' ! (n mod 10)])"

declare digits.simps [simp del]

definition itoa :: "int \<Rightarrow> string" where
  "itoa i = (if i < 0 then CHR ''-'' # digits (nat (- i)) else digits (nat i))"

section \<open>The Go SDK\<close>

text \<open>
  A \<^verbatim>\<open>net/http\<close> error answers \<^verbatim>\<open>Timeout()\<close> and \<^verbatim>\<open>Error()\<close>. The errors the SDK
  returns are either such a library error, returned as it is, or the result of
  \<^verbatim>\<open>fmt.Errorf\<close>, which is a plain string.
\<close>

datatype neterr = NetErr (IsTimeout: bool) (Text: string)

datatype goerror = TransportError neterr | ErrorString string

fun Error_text :: "goerror \<Rightarrow> string" where
  "Error_text (TransportError e) = Text e"
| "Error_text (ErrorString s) = s"

text \<open>
  The library functions the Go files call. \<^verbatim>\<open>json.Marshal\<close> returns the bytes and an
  error; \<^verbatim>\<open>json.Unmarshal\<close> into a \<^verbatim>\<open>map[string]interface{}\<close> variable leaves it
  \<^verbatim>\<open>nil\<close> (\<open>None\<close>) or sets it, and returns an error; \<^verbatim>\<open>http.NewRequest\<close> returns an
  error for a method or URL it rejects.
\<close>

record goenv =
  json_Marshal :: "jvalue \<Rightarrow> string \<times> string option"
  json_Unmarshal :: "string \<Rightarrow> (string \<times> jvalue) list option \<times> string option"
  http_NewRequest :: "string \<Rightarrow> string \<Rightarrow> string option"
  RoundTrip :: "neterr transport"

record SuperAppSDK =
  APIKey :: string
  BaseURL :: string

definition client_Get :: "nat \<Rightarrow> string \<Rightarrow> request" where
  "client_Get ms u = \<lparr>Method = ''GET'', URL = u, Header = [], Body = None, Timeout = Some ms\<rparr>"

definition http_Post :: "string \<Rightarrow> string \<Rightarrow> string \<Rightarrow> request" where
  "http_Post u contentType b =
     \<lparr>Method = ''POST'', URL = u, Header = [(''Content-Type'', contentType)], Body = Some b, Timeout = None\<rparr>"

text \<open>\<^verbatim>\<open>NewSuperAppSDK\<close>, the same in both Go files: the loop over \<^verbatim>\<open>urls\<close>.\<close>

fun NewSuperAppSDK_range :: "goenv \<Rightarrow> string \<Rightarrow> string list \<Rightarrow> event list \<Rightarrow> SuperAppSDK \<times> event list" where
  "NewSuperAppSDK_range env apiKey [] tr =
     (\<lparr>APIKey = apiKey, BaseURL = ''http://localhost:8080/v1/super''\<rparr>, tr @ [Logged UsingDefault])"
| "NewSuperAppSDK_range env apiKey (url # urls) tr =
     (case http_call (RoundTrip env) (client_Get 1000 (url @ ''/list'')) tr of
        (Failed err, tr1) \<Rightarrow>
          NewSuperAppSDK_range env apiKey urls (tr1 @ [Logged (CouldNotConnect url (Text err))])
      | (Response status body rerr, tr1) \<Rightarrow>
          (\<lparr>APIKey = apiKey, BaseURL = url\<rparr>, tr1 @ [Logged (Connected url)]))"

definition NewSuperAppSDK :: "goenv \<Rightarrow> string \<Rightarrow> event list \<Rightarrow> SuperAppSDK \<times> event list" where
  "NewSuperAppSDK env apiKey tr =
     NewSuperAppSDK_range env apiKey
       [''http://localhost:8080/v1/super'', ''http://host.docker.internal:8080/v1/super''] tr"

text \<open>
  The retry loop of \<^verbatim>\<open>Register\<close> (\<^verbatim>\<open>for i := 0; i < 3; i++\<close>), the same in both Go
  files. \<^verbatim>\<open>ioutil.ReadAll\<close>'s error is dropped there, so the bytes read are the body.
\<close>

function Register_attempts ::
  "goenv \<Rightarrow> SuperAppSDK \<Rightarrow> string \<Rightarrow> nat \<Rightarrow> goerror option \<Rightarrow> event list \<Rightarrow> goerror option \<times> event list" where
  "Register_attempts env sdk payload i lastErr tr =
     (if i < 3 then
        (case http_call (RoundTrip env) (http_Post (BaseURL sdk @ ''/register'') ''application/json'' payload) tr of
           (Failed err, tr1) \<Rightarrow>
             Register_attempts env sdk payload (i + 1) (Some (TransportError err))
               (tr1 @ [Logged (RegisterFailed (i + 1) (Text err)), Slept 1000])
         | (Response status body rerr, tr1) \<Rightarrow>
             (if status = 200 then (None, tr1 @ [Logged (RegisterResponse (i + 1) body)])
              else Register_attempts env sdk payload (i + 1)
                     (Some (ErrorString (''server returned non-OK status: '' @ itoa status @ '' - '' @ body)))
                     (tr1 @ [Logged (RegisterResponse (i + 1) body), Slept 1000])))
      else (lastErr, tr))"
  by pat_completeness auto
termination
  by (relation "measure (\<lambda>(env, sdk, payload, i, lastErr, tr). 3 - i)") auto

declare Register_attempts.simps [simp del]

text \<open>
  \<^verbatim>\<open>Register\<close> of \<^verbatim>\<open>src/go/main.go\<close>: no \<^verbatim>\<open>appURL\<close> parameter. The error of
  \<^verbatim>\<open>json.Marshal\<close> is dropped (\<^verbatim>\<open>payload, _ :=\<close>), whatever bytes it returned are sent.
\<close>

definition Register_go_main_payload :: "goenv \<Rightarrow> string \<Rightarrow> string list \<Rightarrow> string" where
  "Register_go_main_payload env appName functions =
     fst (json_Marshal env
            (JObj [(''appName'', JStr appName), (''functions'', JArr (map JStr functions))]))"

definition Register_go_main :: "goenv \<Rightarrow> SuperAppSDK \<Rightarrow> string \<Rightarrow> string list \<Rightarrow> event list \<Rightarrow> goerror option \<times> event list" where
  "Register_go_main env sdk appName functions tr =
     Register_attempts env sdk (Register_go_main_payload env appName functions) 0 None tr"

text \<open>
  \<^verbatim>\<open>Register\<close> of \<^verbatim>\<open>src/unnamed/part_000\<close>: the trailing slash is cut from \<^verbatim>\<open>appURL\<close>
  and the result is encoded as the field \<^verbatim>\<open>url\<close>.
\<close>

definition Register_payload :: "goenv \<Rightarrow> string \<Rightarrow> string list \<Rightarrow> string \<Rightarrow> string" where
  "Register_payload env appName functions appURL =
     (let appURL' = (if length appURL > 0 \<and> appURL ! (length appURL - 1) = CHR ''/''
                     then take (length appURL - 1) appURL else appURL)
      in fst (json_Marshal env
            (JObj [(''appName'', JStr appName), (''functions'', JArr (map JStr functions)),
                   (''url'', JStr appURL')])))"

definition Register :: "goenv \<Rightarrow> SuperAppSDK \<Rightarrow> string \<Rightarrow> string list \<Rightarrow> string \<Rightarrow> event list \<Rightarrow> goerror option \<times> event list" where
  "Register env sdk appName functions appURL tr =
     Register_attempts env sdk (Register_payload env appName functions appURL) 0 None tr"

text \<open>
  \<^verbatim>\<open>CallFunction\<close> from \<^verbatim>\<open>json.Marshal\<close> on, the same in both Go files; \<open>request\<close> is the
  map literal being encoded.
\<close>

definition CallFunction_request ::
  "goenv \<Rightarrow> SuperAppSDK \<Rightarrow> jvalue \<Rightarrow> string \<Rightarrow> string \<Rightarrow> event list
     \<Rightarrow> (goerror + (string \<times> jvalue) list option) \<times> event list" where
  "CallFunction_request env sdk request targetApp functionName tr =
     (case json_Marshal env request of
        (requestBody, Some err) \<Rightarrow> (Inl (ErrorString (''error encoding request JSON: '' @ err)), tr)
      | (requestBody, None) \<Rightarrow>
          (let tr1 = tr @ [Logged (Calling targetApp functionName requestBody)] in
           case http_NewRequest env ''POST'' (BaseURL sdk @ ''/call-function'') of
             Some err \<Rightarrow> (Inl (ErrorString (''error creating request: '' @ err)), tr1)
           | None \<Rightarrow>
              (case http_call (RoundTrip env)
                      \<lparr>Method = ''POST'', URL = BaseURL sdk @ ''/call-function'',
                       Header = [(''Content-Type'', ''application/json'')],
                       Body = Some requestBody, Timeout = Some 10000\<rparr> tr1 of
                 (Failed err, tr2) \<Rightarrow> (Inl (ErrorString (''error calling function: '' @ Text err)), tr2)
               | (Response status body (Some err), tr2) \<Rightarrow>
                   (Inl (ErrorString (''error reading response body: '' @ Text err)), tr2)
               | (Response status body None, tr2) \<Rightarrow>
                   (let tr3 = tr2 @ [Logged (RawResponse body)] in
                    if status \<noteq> 200
                    then (Inl (ErrorString (''server returned non-OK status: '' @ itoa status @ '' - '' @ body)), tr3)
                    else (case json_Unmarshal env body of
                            (result, Some err) \<Rightarrow>
                              (Inl (ErrorString (''error decoding response JSON: '' @ err)), tr3)
                          | (result, None) \<Rightarrow> (Inr result, tr3))))))"

text \<open>\<^verbatim>\<open>CallFunction\<close> of \<^verbatim>\<open>src/go/main.go\<close>: it takes a \<^verbatim>\<open>url\<close> and encodes it.\<close>

definition CallFunction_go_main ::
  "goenv \<Rightarrow> SuperAppSDK \<Rightarrow> string \<Rightarrow> string \<Rightarrow> string \<Rightarrow> string \<Rightarrow> (string \<times> jvalue) list \<Rightarrow> event list
     \<Rightarrow> (goerror + (string \<times> jvalue) list option) \<times> event list" where
  "CallFunction_go_main env sdk url caller targetApp functionName payload tr =
     CallFunction_request env sdk
       (JObj [(''url'', JStr url), (''caller'', JStr caller), (''targetApp'', JStr targetApp),
              (''functionName'', JStr functionName), (''payload'', JObj payload)])
       targetApp functionName tr"

text \<open>\<^verbatim>\<open>CallFunction\<close> of \<^verbatim>\<open>src/unnamed/part_000\<close>.\<close>

definition CallFunction ::
  "goenv \<Rightarrow> SuperAppSDK \<Rightarrow> string \<Rightarrow> string \<Rightarrow> string \<Rightarrow> (string \<times> jvalue) list \<Rightarrow> event list
     \<Rightarrow> (goerror + (string \<times> jvalue) list option) \<times> event list" where
  "CallFunction env sdk caller targetApp functionName payload tr =
     CallFunction_request env sdk
       (JObj [(''caller'', JStr caller), (''targetApp'', JStr targetApp),
              (''functionName'', JStr functionName), (''payload'', JObj payload)])
       targetApp functionName tr"

section \<open>The TypeScript SDK\<close>

text \<open>
  A thrown value is an \<^verbatim>\<open>Error\<close> object (its \<^verbatim>\<open>name\<close> and \<^verbatim>\<open>message\<close>) or some other
  value, kept by its string form. \<open>String_of\<close> is \<^verbatim>\<open>String(error)\<close>, which a
  template literal applies.
\<close>

datatype thrown = ErrorObj string string | Thrown string

fun String_of :: "thrown \<Rightarrow> string" where
  "String_of (ErrorObj n m) = (if n = [] then m else if m = [] then n else n @ '': '' @ m)"
| "String_of (Thrown s) = s"

record jsenv =
  JSON_stringify :: "jvalue \<Rightarrow> thrown + string"
  JSON_parse :: "string \<Rightarrow> thrown + jvalue"
  fetch :: "thrown transport"

record SuperAppSDK_ts =
  apiKey :: string
  baseURL :: string

definition SuperAppSDK_new :: "string \<Rightarrow> SuperAppSDK_ts" where
  "SuperAppSDK_new k = \<lparr>apiKey = k, baseURL = []\<rparr>"

text \<open>\<^verbatim>\<open>response.ok\<close>: the status is in the range 200 to 299.\<close>

definition ok :: "int \<Rightarrow> bool" where
  "ok status = (200 \<le> status \<and> status \<le> 299)"

text \<open>\<^verbatim>\<open>initialize\<close>: the loop over \<^verbatim>\<open>urls\<close>, each round a \<^verbatim>\<open>try\<close> whose \<^verbatim>\<open>catch\<close> logs.\<close>

fun initialize_urls :: "jsenv \<Rightarrow> SuperAppSDK_ts \<Rightarrow> string list \<Rightarrow> event list \<Rightarrow> SuperAppSDK_ts \<times> event list" where
  "initialize_urls env this [] tr =
     (this\<lparr>baseURL := ''http://localhost:8080/v1/super''\<rparr>, tr @ [Logged UsingDefault])"
| "initialize_urls env this (url # urls) tr =
     (case http_call (fetch env)
             \<lparr>Method = ''GET'', URL = url @ ''/list'', Header = [], Body = None, Timeout = Some 1000\<rparr> tr of
        (Failed error, tr1) \<Rightarrow>
          initialize_urls env this urls (tr1 @ [Logged (CouldNotConnect url (String_of error))])
      | (Response status body rerr, tr1) \<Rightarrow>
          (if ok status then (this\<lparr>baseURL := url\<rparr>, tr1 @ [Logged (Connected url)])
           else initialize_urls env this urls tr1))"

definition initialize :: "jsenv \<Rightarrow> SuperAppSDK_ts \<Rightarrow> event list \<Rightarrow> SuperAppSDK_ts \<times> event list" where
  "initialize env this tr =
     initialize_urls env this
       [''http://localhost:8080/v1/super'', ''http://host.docker.internal:8080/v1/super''] tr"

definition create :: "jsenv \<Rightarrow> string \<Rightarrow> event list \<Rightarrow> SuperAppSDK_ts \<times> event list" where
  "create env k tr = initialize env (SuperAppSDK_new k) tr"

text \<open>
  One round of \<^verbatim>\<open>register\<close>'s loop, the \<^verbatim>\<open>try\<close> block: \<open>Inl error\<close> when an
  exception reaches the \<^verbatim>\<open>catch\<close>, \<open>Inr None\<close> when the block returns, \<open>Inr (Some e)\<close>
  when it ends having set \<^verbatim>\<open>lastError\<close> to \<open>e\<close>.
\<close>

definition register_try ::
  "jsenv \<Rightarrow> SuperAppSDK_ts \<Rightarrow> jvalue \<Rightarrow> nat \<Rightarrow> event list \<Rightarrow> (thrown + thrown option) \<times> event list" where
  "register_try env this payload i tr =
     (case JSON_stringify env payload of
        Inl error \<Rightarrow> (Inl error, tr)
      | Inr b \<Rightarrow>
         (case http_call (fetch env)
                 \<lparr>Method = ''POST'', URL = baseURL this @ ''/register'',
                  Header = [(''Content-Type'', ''application/json'')], Body = Some b, Timeout = None\<rparr> tr of
            (Failed error, tr1) \<Rightarrow> (Inl error, tr1)
          | (Response status responseText (Some error), tr1) \<Rightarrow> (Inl error, tr1)
          | (Response status responseText None, tr1) \<Rightarrow>
              (if ok status then (Inr None, tr1 @ [Logged (RegisterResponse (i + 1) responseText)])
               else (Inr (Some (ErrorObj ''Error''
                        (''Server returned non-OK status: '' @ itoa status @ '' - '' @ responseText))),
                     tr1 @ [Logged (RegisterResponse (i + 1) responseText)]))))"

text \<open>\<^verbatim>\<open>error instanceof Error ? error : new Error(String(error))\<close>\<close>

fun as_Error :: "thrown \<Rightarrow> thrown" where
  "as_Error (ErrorObj n m) = ErrorObj n m"
| "as_Error (Thrown s) = ErrorObj ''Error'' s"

function register_attempts ::
  "jsenv \<Rightarrow> SuperAppSDK_ts \<Rightarrow> jvalue \<Rightarrow> nat \<Rightarrow> thrown option \<Rightarrow> event list \<Rightarrow> (thrown + unit) \<times> event list" where
  "register_attempts env this payload i lastError tr =
     (if i < 3 then
        (case register_try env this payload i tr of
           (Inr None, tr1) \<Rightarrow> (Inr (), tr1)
         | (Inr (Some e), tr1) \<Rightarrow>
             register_attempts env this payload (i + 1) (Some e) (tr1 @ [Slept 1000])
         | (Inl error, tr1) \<Rightarrow>
             register_attempts env this payload (i + 1) (Some (as_Error error))
               (tr1 @ [Logged (RegisterFailed (i + 1) (String_of error)), Slept 1000]))
      else (case lastError of Some e \<Rightarrow> (Inl e, tr) | None \<Rightarrow> (Inl (Thrown ''null''), tr)))"
  by pat_completeness auto
termination
  by (relation "measure (\<lambda>(env, this, payload, i, lastError, tr). 3 - i)") auto

declare register_attempts.simps [simp del]

definition register_payload :: "string \<Rightarrow> string list \<Rightarrow> string \<Rightarrow> jvalue" where
  "register_payload appName functions appURL =
     (let appURL' = (if length appURL > 0 \<and> last appURL = CHR ''/'' then butlast appURL else appURL)
      in JObj [(''appName'', JStr appName), (''functions'', JArr (map JStr functions)),
               (''url'', JStr appURL')])"

definition register ::
  "jsenv \<Rightarrow> SuperAppSDK_ts \<Rightarrow> string \<Rightarrow> string list \<Rightarrow> string \<Rightarrow> event list \<Rightarrow> (thrown + unit) \<times> event list" where
  "register env this appName functions appURL tr =
     register_attempts env this (register_payload appName functions appURL) 0 None tr"

text \<open>The outer \<^verbatim>\<open>try\<close> block of \<^verbatim>\<open>callFunction\<close>.\<close>

definition callFunction_try ::
  "jsenv \<Rightarrow> SuperAppSDK_ts \<Rightarrow> jvalue \<Rightarrow> event list \<Rightarrow> (thrown + jvalue) \<times> event list" where
  "callFunction_try env this requestBody tr =
     (case JSON_stringify env requestBody of
        Inl error \<Rightarrow> (Inl error, tr)
      | Inr b \<Rightarrow>
         (case http_call (fetch env)
                 \<lparr>Method = ''POST'', URL = baseURL this @ ''/call-function'',
                  Header = [(''Content-Type'', ''application/json'')], Body = Some b,
                  Timeout = Some 10000\<rparr> tr of
            (Failed error, tr1) \<Rightarrow> (Inl error, tr1)
          | (Response status responseText (Some error), tr1) \<Rightarrow> (Inl error, tr1)
          | (Response status responseText None, tr1) \<Rightarrow>
              (let tr2 = tr1 @ [Logged (RawResponse responseText)] in
               if \<not> ok status
               then (Inl (ErrorObj ''Error''
                       (''Server returned non-OK status: '' @ itoa status @ '' - '' @ responseText)), tr2)
               else (case JSON_parse env responseText of
                       Inl parseError \<Rightarrow>
                         (Inl (ErrorObj ''Error'' (''Error parsing response JSON: '' @ String_of parseError)), tr2)
                     | Inr v \<Rightarrow> (Inr v, tr2)))))"

text \<open>\<^verbatim>\<open>error instanceof Error && error.name === "AbortError"\<close>\<close>

fun is_AbortError :: "thrown \<Rightarrow> bool" where
  "is_AbortError (ErrorObj n m) = (n = ''AbortError'')"
| "is_AbortError (Thrown s) = False"

text \<open>
  \<^verbatim>\<open>callFunction\<close>: the request body is first encoded for the log line, outside the
  \<^verbatim>\<open>try\<close>, so an exception there leaves the function as it is.
\<close>

definition callFunction ::
  "jsenv \<Rightarrow> SuperAppSDK_ts \<Rightarrow> string \<Rightarrow> string \<Rightarrow> string \<Rightarrow> (string \<times> jvalue) list \<Rightarrow> event list
     \<Rightarrow> (thrown + jvalue) \<times> event list" where
  "callFunction env this caller targetApp functionName payload tr =
     (let requestBody = JObj [(''caller'', JStr caller), (''targetApp'', JStr targetApp),
                              (''functionName'', JStr functionName), (''payload'', JObj payload)]
      in case JSON_stringify env requestBody of
           Inl error \<Rightarrow> (Inl error, tr)
         | Inr s \<Rightarrow>
            (case callFunction_try env this requestBody (tr @ [Logged (Calling targetApp functionName s)]) of
               (Inl error, tr1) \<Rightarrow>
                 (if is_AbortError error
                  then (Inl (ErrorObj ''Error'' ''Request timed out after 10 seconds''), tr1)
                  else (Inl error, tr1))
             | (Inr v, tr1) \<Rightarrow> (Inr v, tr1)))"

section \<open>Test doubles\<close>

text \<open>
  A mock host that answers the n-th request with the n-th outcome of a script, and with
  \<open>d\<close> once the script is used up.
\<close>

definition replay :: "'e outcome \<Rightarrow> 'e outcome list \<Rightarrow> 'e transport" where
  "replay d os h r = (if length h < length os then os ! length h else d)"

text \<open>
  A JSON codec for the examples: it writes compact JSON (no escapes), refuses a value
  that holds a \<open>JOther\<close>, and reads the few bodies the examples use.
\<close>

fun commas :: "string list \<Rightarrow> string" where
  "commas [] = []"
| "commas [s] = s"
| "commas (s # t # ss) = s @ '','' @ commas (t # ss)"

fun render :: "jvalue \<Rightarrow> string" where
  "render JNull = ''null''"
| "render (JBool b) = (if b then ''true'' else ''false'')"
| "render (JNum n) = itoa n"
| "render (JStr s) = CHR 0x22 # s @ [CHR 0x22]"
| "render (JArr vs) = ''['' @ commas (map render vs) @ '']''"
| "render (JObj kvs) =
     ''{'' @ commas (map (\<lambda>(k, v). CHR 0x22 # k @ [CHR 0x22] @ '':'' @ render v) kvs) @ ''}''"
| "render (JOther s) = []"

fun encodable :: "jvalue \<Rightarrow> bool" where
  "encodable (JArr vs) = list_all encodable vs"
| "encodable (JObj kvs) = list_all (\<lambda>(k, v). encodable v) kvs"
| "encodable (JOther s) = False"
| "encodable v = True"

definition sample_parse :: "string \<Rightarrow> jvalue option" where
  "sample_parse s =
     (if s = ''null'' then Some JNull
      else if s = ''[]'' then Some (JArr [])
      else if s = render (JObj [(''result'', JNum 42)]) then Some (JObj [(''result'', JNum 42)])
      else None)"

definition go_mock :: "neterr transport \<Rightarrow> goenv" where
  "go_mock net =
     \<lparr>json_Marshal = (\<lambda>v. if encodable v then (render v, None) else ([], Some ''json: unsupported type'')),
      json_Unmarshal = (\<lambda>s. case sample_parse s of
          None \<Rightarrow> (None, Some ''invalid character'')
        | Some JNull \<Rightarrow> (None, None)
        | Some (JObj kvs) \<Rightarrow> (Some kvs, None)
        | Some v \<Rightarrow> (None, Some ''json: cannot unmarshal into Go value of type map[string]interface {}'')),
      http_NewRequest = (\<lambda>m u. None),
      RoundTrip = net\<rparr>"

definition js_mock :: "thrown transport \<Rightarrow> jsenv" where
  "js_mock net =
     \<lparr>JSON_stringify = (\<lambda>v. if encodable v then Inr (render v)
                            else Inl (ErrorObj ''TypeError'' ''Do not know how to serialize a BigInt'')),
      JSON_parse = (\<lambda>s. case sample_parse s of
          None \<Rightarrow> Inl (ErrorObj ''SyntaxError'' ''Unexpected token'')
        | Some v \<Rightarrow> Inr v),
      fetch = net\<rparr>"

section \<open>The vocabulary of the statements\<close>

text \<open>The reachability probe of a candidate, and a JSON POST with a timeout.\<close>

definition probe :: "string \<Rightarrow> request" where
  "probe u = \<lparr>Method = ''GET'', URL = u @ ''/list'', Header = [], Body = None, Timeout = Some 1000\<rparr>"

definition POST :: "string \<Rightarrow> string \<Rightarrow> nat option \<Rightarrow> request" where
  "POST u b t =
     \<lparr>Method = ''POST'', URL = u, Header = [(''Content-Type'', ''application/json'')], Body = Some b,
      Timeout = t\<rparr>"

text \<open>A probe got a response, whatever its status; a probe got a response with a 2xx status.\<close>

fun responded :: "'e outcome \<Rightarrow> bool" where
  "responded (Failed e) = False"
| "responded (Response status body rerr) = True"

fun responded_ok :: "'e outcome \<Rightarrow> bool" where
  "responded_ok (Failed e) = False"
| "responded_ok (Response status body rerr) = ok status"

text \<open>
  What one registration attempt amounts to: \<open>None\<close> when it succeeds, the error it
  leaves behind otherwise. In Go an attempt succeeds on status 200 (a body that could
  not be read to its end is taken as it is); in TypeScript on a 2xx status whose body
  could be read.
\<close>

fun attempt_error :: "neterr outcome \<Rightarrow> goerror option" where
  "attempt_error (Failed err) = Some (TransportError err)"
| "attempt_error (Response status body rerr) =
     (if status = 200 then None
      else Some (ErrorString (''server returned non-OK status: '' @ itoa status @ '' - '' @ body)))"

fun attempt_log :: "nat \<Rightarrow> neterr outcome \<Rightarrow> logline" where
  "attempt_log n (Failed err) = RegisterFailed n (Text err)"
| "attempt_log n (Response status body rerr) = RegisterResponse n body"

fun attempt_error_ts :: "thrown outcome \<Rightarrow> thrown option" where
  "attempt_error_ts (Failed error) = Some (as_Error error)"
| "attempt_error_ts (Response status responseText (Some error)) = Some (as_Error error)"
| "attempt_error_ts (Response status responseText None) =
     (if ok status then None
      else Some (ErrorObj ''Error''
             (''Server returned non-OK status: '' @ itoa status @ '' - '' @ responseText)))"

fun attempt_log_ts :: "nat \<Rightarrow> thrown outcome \<Rightarrow> logline" where
  "attempt_log_ts n (Failed error) = RegisterFailed n (String_of error)"
| "attempt_log_ts n (Response status responseText (Some error)) = RegisterFailed n (String_of error)"
| "attempt_log_ts n (Response status responseText None) = RegisterResponse n responseText"

section \<open>Helper lemmas\<close>

lemma sent_append: "sent (a @ b) = sent a @ sent b"
  by (induction a rule: sent.induct) simp_all

lemma effects_append: "effects (a @ b) = effects a @ effects b"
  by (induction a rule: effects.induct) simp_all

lemma NewSuperAppSDK_unfold:
  "NewSuperAppSDK env k tr =
     (case RoundTrip env (sent tr) (probe ''http://localhost:8080/v1/super'') of
        Response s b r \<Rightarrow>
          (\<lparr>APIKey = k, BaseURL = ''http://localhost:8080/v1/super''\<rparr>,
           tr @ [Sent (probe ''http://localhost:8080/v1/super''),
                 Logged (Connected ''http://localhost:8080/v1/super'')])
      | Failed e1 \<Rightarrow>
          (case RoundTrip env (sent tr @ [probe ''http://localhost:8080/v1/super''])
                  (probe ''http://host.docker.internal:8080/v1/super'') of
             Response s b r \<Rightarrow>
               (\<lparr>APIKey = k, BaseURL = ''http://host.docker.internal:8080/v1/super''\<rparr>,
                tr @ [Sent (probe ''http://localhost:8080/v1/super''),
                      Logged (CouldNotConnect ''http://localhost:8080/v1/super'' (Text e1)),
                      Sent (probe ''http://host.docker.internal:8080/v1/super''),
                      Logged (Connected ''http://host.docker.internal:8080/v1/super'')])
           | Failed e2 \<Rightarrow>
               (\<lparr>APIKey = k, BaseURL = ''http://localhost:8080/v1/super''\<rparr>,
                tr @ [Sent (probe ''http://localhost:8080/v1/super''),
                      Logged (CouldNotConnect ''http://localhost:8080/v1/super'' (Text e1)),
                      Sent (probe ''http://host.docker.internal:8080/v1/super''),
                      Logged (CouldNotConnect ''http://host.docker.internal:8080/v1/super'' (Text e2)),
                      Logged UsingDefault])))"
  by (simp add: NewSuperAppSDK_def http_call_def client_Get_def probe_def sent_append
           split: outcome.splits)

lemma initialize_unfold:
  "initialize env this tr =
     (let p1 = probe ''http://localhost:8080/v1/super'';
          p2 = probe ''http://host.docker.internal:8080/v1/super'';
          o1 = fetch env (sent tr) p1;
          o2 = fetch env (sent tr @ [p1]) p2;
          l1 = (case o1 of Failed e \<Rightarrow> [Logged (CouldNotConnect ''http://localhost:8080/v1/super'' (String_of e))]
                | Response s b r \<Rightarrow> []);
          l2 = (case o2 of Failed e \<Rightarrow> [Logged (CouldNotConnect ''http://host.docker.internal:8080/v1/super'' (String_of e))]
                | Response s b r \<Rightarrow> [])
      in if responded_ok o1
         then (this\<lparr>baseURL := ''http://localhost:8080/v1/super''\<rparr>,
               tr @ [Sent p1, Logged (Connected ''http://localhost:8080/v1/super'')])
         else if responded_ok o2
         then (this\<lparr>baseURL := ''http://host.docker.internal:8080/v1/super''\<rparr>,
               tr @ [Sent p1] @ l1 @ [Sent p2, Logged (Connected ''http://host.docker.internal:8080/v1/super'')])
         else (this\<lparr>baseURL := ''http://localhost:8080/v1/super''\<rparr>,
               tr @ [Sent p1] @ l1 @ [Sent p2] @ l2 @ [Logged UsingDefault]))"
  by (simp add: initialize_def http_call_def probe_def sent_append Let_def
           split: outcome.splits)

lemma Register_attempts_step:
  assumes "i < 3" and "n = i + 1"
  shows "Register_attempts env sdk payload i l t =
     (let req = POST (BaseURL sdk @ ''/register'') payload None;
          out = RoundTrip env (sent t) req
      in if attempt_error out = None then (None, t @ [Sent req, Logged (attempt_log n out)])
         else Register_attempts env sdk payload n (attempt_error out)
                (t @ [Sent req, Logged (attempt_log n out), Slept 1000]))"
proof (cases "RoundTrip env (sent t) (POST (BaseURL sdk @ ''/register'') payload None)")
  case (Failed err)
  with assms show ?thesis
    by (subst Register_attempts.simps) (simp add: http_call_def http_Post_def POST_def)
next
  case (Response status body rerr)
  with assms show ?thesis
    by (subst Register_attempts.simps) (simp add: http_call_def http_Post_def POST_def)
qed

lemma Register_attempts_done: "Register_attempts env sdk payload 3 l t = (l, t)"
  by (subst Register_attempts.simps) simp

lemma Register_attempts_unfold:
  "Register_attempts env sdk payload 0 lastErr tr =
     (let req = POST (BaseURL sdk @ ''/register'') payload None;
          o1 = RoundTrip env (sent tr) req;
          o2 = RoundTrip env (sent tr @ [req]) req;
          o3 = RoundTrip env (sent tr @ [req, req]) req
      in if attempt_error o1 = None then (None, tr @ [Sent req, Logged (attempt_log 1 o1)])
         else if attempt_error o2 = None
         then (None, tr @ [Sent req, Logged (attempt_log 1 o1), Slept 1000,
                            Sent req, Logged (attempt_log 2 o2)])
         else if attempt_error o3 = None
         then (None, tr @ [Sent req, Logged (attempt_log 1 o1), Slept 1000,
                            Sent req, Logged (attempt_log 2 o2), Slept 1000,
                            Sent req, Logged (attempt_log 3 o3)])
         else (attempt_error o3,
               tr @ [Sent req, Logged (attempt_log 1 o1), Slept 1000,
                     Sent req, Logged (attempt_log 2 o2), Slept 1000,
                     Sent req, Logged (attempt_log 3 o3), Slept 1000]))"
  by (simp add: Register_attempts_step [of 0 "Suc 0"] Register_attempts_step [of "Suc 0" 2]
        Register_attempts_step [of 2 3] Register_attempts_done Let_def sent_append)

lemma register_try_stringified:
  assumes "JSON_stringify env payload = Inr b"
  shows "register_try env this payload i t =
     (let req = POST (baseURL this @ ''/register'') b None;
          out = fetch env (sent t) req
      in case out of
           Failed error \<Rightarrow> (Inl error, t @ [Sent req])
         | Response status responseText (Some error) \<Rightarrow> (Inl error, t @ [Sent req])
         | Response status responseText None \<Rightarrow>
             (Inr (attempt_error_ts out), t @ [Sent req, Logged (RegisterResponse (i + 1) responseText)]))"
  using assms
  by (simp add: register_try_def http_call_def POST_def Let_def split: outcome.splits option.splits)

lemma register_attempts_step:
  assumes "JSON_stringify env payload = Inr b" and "i < 3" and "n = i + 1"
  shows "register_attempts env this payload i l t =
     (let req = POST (baseURL this @ ''/register'') b None;
          out = fetch env (sent t) req
      in if attempt_error_ts out = None then (Inr (), t @ [Sent req, Logged (attempt_log_ts n out)])
         else register_attempts env this payload n (attempt_error_ts out)
                (t @ [Sent req, Logged (attempt_log_ts n out), Slept 1000]))"
proof (cases "fetch env (sent t) (POST (baseURL this @ ''/register'') b None)")
  case (Failed error)
  with assms show ?thesis
    by (subst register_attempts.simps) (simp add: register_try_stringified)
next
  case (Response status responseText rerr)
  with assms show ?thesis
    by (subst register_attempts.simps) (cases rerr; simp add: register_try_stringified)
qed

lemma register_attempts_done:
  "register_attempts env this payload 3 (Some e) t = (Inl e, t)"
  by (subst register_attempts.simps) simp

lemma register_attempts_unfold:
  assumes "JSON_stringify env payload = Inr b"
  shows "register_attempts env this payload 0 lastError tr =
     (let req = POST (baseURL this @ ''/register'') b None;
          o1 = fetch env (sent tr) req;
          o2 = fetch env (sent tr @ [req]) req;
          o3 = fetch env (sent tr @ [req, req]) req
      in if attempt_error_ts o1 = None then (Inr (), tr @ [Sent req, Logged (attempt_log_ts 1 o1)])
         else if attempt_error_ts o2 = None
         then (Inr (), tr @ [Sent req, Logged (attempt_log_ts 1 o1), Slept 1000,
                            Sent req, Logged (attempt_log_ts 2 o2)])
         else if attempt_error_ts o3 = None
         then (Inr (), tr @ [Sent req, Logged (attempt_log_ts 1 o1), Slept 1000,
                            Sent req, Logged (attempt_log_ts 2 o2), Slept 1000,
                            Sent req, Logged (attempt_log_ts 3 o3)])
         else (Inl (the (attempt_error_ts o3)),
               tr @ [Sent req, Logged (attempt_log_ts 1 o1), Slept 1000,
                     Sent req, Logged (attempt_log_ts 2 o2), Slept 1000,
                     Sent req, Logged (attempt_log_ts 3 o3), Slept 1000]))"
  by (auto simp add: register_attempts_step [OF assms, of 0 "Suc 0"]
        register_attempts_step [OF assms, of "Suc 0" 2]
        register_attempts_step [OF assms, of 2 3] register_attempts_done Let_def sent_append)

lemma register_attempts_unencodable:
  assumes "JSON_stringify env payload = Inl error"
  shows "register_attempts env this payload 0 lastError tr =
     (Inl (as_Error error),
      tr @ [Logged (RegisterFailed 1 (String_of error)), Slept 1000,
            Logged (RegisterFailed 2 (String_of error)), Slept 1000,
            Logged (RegisterFailed 3 (String_of error)), Slept 1000])"
proof -
  have step: "\<And>i n l t. i < 3 \<Longrightarrow> n = i + 1 \<Longrightarrow> register_attempts env this payload i l t =
      register_attempts env this payload n (Some (as_Error error))
        (t @ [Logged (RegisterFailed n (String_of error)), Slept 1000])"
    using assms by (subst register_attempts.simps) (simp add: register_try_def)
  show ?thesis
    by (simp add: step [of 0 "Suc 0"] step [of "Suc 0" 2] step [of 2 3] register_attempts_done)
qed

lemma Register_payload_eq:
  "Register_payload env appName funcs appURL =
     fst (json_Marshal env (JObj [(''appName'', JStr appName),
            (''functions'', JArr (map JStr funcs)),
            (''url'', JStr (if appURL \<noteq> [] \<and> last appURL = CHR ''/'' then butlast appURL else appURL))]))"
  by (cases "appURL = []") (simp_all add: Register_payload_def last_conv_nth butlast_conv_take)

lemma Register_attempts_sent:
  "sent (snd (Register_attempts env sdk payload 0 None tr)) \<in>
     {sent tr @ [POST (BaseURL sdk @ ''/register'') payload None],
      sent tr @ [POST (BaseURL sdk @ ''/register'') payload None,
                 POST (BaseURL sdk @ ''/register'') payload None],
      sent tr @ [POST (BaseURL sdk @ ''/register'') payload None,
                 POST (BaseURL sdk @ ''/register'') payload None,
                 POST (BaseURL sdk @ ''/register'') payload None]}"
  by (simp add: Register_attempts_unfold Let_def sent_append)

lemma register_attempts_sent:
  assumes "JSON_stringify js payload = Inr b"
  shows "sent (snd (register_attempts js this payload 0 None tr)) \<in>
     {sent tr @ [POST (baseURL this @ ''/register'') b None],
      sent tr @ [POST (baseURL this @ ''/register'') b None,
                 POST (baseURL this @ ''/register'') b None],
      sent tr @ [POST (baseURL this @ ''/register'') b None,
                 POST (baseURL this @ ''/register'') b None,
                 POST (baseURL this @ ''/register'') b None]}"
  by (simp add: register_attempts_unfold [OF assms] Let_def sent_append)

lemma CallFunction_request_encoded:
  assumes "json_Marshal env v = (b, None)"
      and "http_NewRequest env ''POST'' (BaseURL sdk @ ''/call-function'') = None"
  shows "CallFunction_request env sdk v targetApp functionName tr =
     (let req = POST (BaseURL sdk @ ''/call-function'') b (Some 10000);
          t1 = tr @ [Logged (Calling targetApp functionName b), Sent req]
      in case RoundTrip env (sent tr) req of
           Failed err \<Rightarrow> (Inl (ErrorString (''error calling function: '' @ Text err)), t1)
         | Response status body (Some err) \<Rightarrow>
             (Inl (ErrorString (''error reading response body: '' @ Text err)), t1)
         | Response status body None \<Rightarrow>
             (if status \<noteq> 200
              then (Inl (ErrorString (''server returned non-OK status: '' @ itoa status @ '' - '' @ body)),
                    t1 @ [Logged (RawResponse body)])
              else (case json_Unmarshal env body of
                      (result, Some err) \<Rightarrow>
                        (Inl (ErrorString (''error decoding response JSON: '' @ err)),
                         t1 @ [Logged (RawResponse body)])
                    | (result, None) \<Rightarrow> (Inr result, t1 @ [Logged (RawResponse body)]))))"
  using assms
  by (simp add: CallFunction_request_def http_call_def POST_def sent_append Let_def
           split: outcome.splits option.splits prod.splits)

lemma CallFunction_request_unencodable:
  assumes "json_Marshal env v = (b, Some e)"
  shows "CallFunction_request env sdk v targetApp functionName tr =
     (Inl (ErrorString (''error encoding request JSON: '' @ e)), tr)"
  using assms by (simp add: CallFunction_request_def)

lemma CallFunction_request_rejected:
  assumes "json_Marshal env v = (b, None)"
      and "http_NewRequest env ''POST'' (BaseURL sdk @ ''/call-function'') = Some e"
  shows "CallFunction_request env sdk v targetApp functionName tr =
     (Inl (ErrorString (''error creating request: '' @ e)),
      tr @ [Logged (Calling targetApp functionName b)])"
  using assms by (simp add: CallFunction_request_def)

lemma callFunction_encoded:
  assumes "JSON_stringify js
             (JObj [(''caller'', JStr caller), (''targetApp'', JStr targetApp),
                    (''functionName'', JStr functionName), (''payload'', JObj payload)]) = Inr b"
  shows "callFunction js this caller targetApp functionName payload tr =
     (let req = POST (baseURL this @ ''/call-function'') b (Some 10000);
          t1 = tr @ [Logged (Calling targetApp functionName b), Sent req];
          timeout = (\<lambda>error. if is_AbortError error
                             then ErrorObj ''Error'' ''Request timed out after 10 seconds'' else error)
      in case fetch js (sent tr) req of
           Failed error \<Rightarrow> (Inl (timeout error), t1)
         | Response status responseText (Some error) \<Rightarrow> (Inl (timeout error), t1)
         | Response status responseText None \<Rightarrow>
             (if \<not> ok status
              then (Inl (ErrorObj ''Error''
                      (''Server returned non-OK status: '' @ itoa status @ '' - '' @ responseText)),
                    t1 @ [Logged (RawResponse responseText)])
              else (case JSON_parse js responseText of
                      Inl parseError \<Rightarrow>
                        (Inl (ErrorObj ''Error'' (''Error parsing response JSON: '' @ String_of parseError)),
                         t1 @ [Logged (RawResponse responseText)])
                    | Inr v \<Rightarrow> (Inr v, t1 @ [Logged (RawResponse responseText)]))))"
  using assms
  by (simp add: callFunction_def callFunction_try_def http_call_def POST_def sent_append Let_def
           split: outcome.splits option.splits sum.splits)

lemma callFunction_unencodable:
  assumes "JSON_stringify js
             (JObj [(''caller'', JStr caller), (''targetApp'', JStr targetApp),
                    (''functionName'', JStr functionName), (''payload'', JObj payload)]) = Inl e"
  shows "callFunction js this caller targetApp functionName payload tr = (Inl e, tr)"
  using assms by (simp add: callFunction_def)

lemma CallFunction_request_posts_once:
  "(json_Marshal env v = (b, None) \<and>
      http_NewRequest env ''POST'' (BaseURL sdk @ ''/call-function'') = None
    \<longrightarrow> sent (snd (CallFunction_request env sdk v targetApp functionName tr)) =
          sent tr @ [POST (BaseURL sdk @ ''/call-function'') b (Some 10000)]) \<and>
   (json_Marshal env v = (b, Some e)
    \<longrightarrow> CallFunction_request env sdk v targetApp functionName tr =
          (Inl (ErrorString (''error encoding request JSON: '' @ e)), tr)) \<and>
   (json_Marshal env v = (b, None) \<and>
      http_NewRequest env ''POST'' (BaseURL sdk @ ''/call-function'') = Some e
    \<longrightarrow> fst (CallFunction_request env sdk v targetApp functionName tr) =
          Inl (ErrorString (''error creating request: '' @ e)) \<and>
        sent (snd (CallFunction_request env sdk v targetApp functionName tr)) = sent tr)"
  by (auto simp add: CallFunction_request_encoded CallFunction_request_unencodable
        CallFunction_request_rejected Let_def sent_append
        split: outcome.splits option.splits prod.splits)

lemma sublist_end: "sublist ys (xs @ ws @ vs @ ys)"
  using sublist_appendI [of ys "xs @ ws @ vs" "[]"] by simp

lemma CallFunction_request_non_ok:
  assumes "json_Marshal env v = (b, None)"
      and "http_NewRequest env ''POST'' (BaseURL sdk @ ''/call-function'') = None"
      and "RoundTrip env (sent tr) (POST (BaseURL sdk @ ''/call-function'') b (Some 10000))
             = Response status body None"
      and "status \<noteq> 200"
  shows "\<exists>msg. fst (CallFunction_request env sdk v targetApp functionName tr) = Inl (ErrorString msg) \<and>
          sublist (itoa status) msg \<and> sublist body msg"
proof (intro exI conjI)
  show "fst (CallFunction_request env sdk v targetApp functionName tr) =
          Inl (ErrorString (''server returned non-OK status: '' @ itoa status @ '' - '' @ body))"
    using assms by (simp add: CallFunction_request_encoded Let_def)
  show "sublist (itoa status) (''server returned non-OK status: '' @ itoa status @ '' - '' @ body)"
    by (rule sublist_appendI)
  show "sublist body (''server returned non-OK status: '' @ itoa status @ '' - '' @ body)"
    by (rule sublist_end)
qed

lemma callFunction_non_ok:
  assumes "JSON_stringify js
             (JObj [(''caller'', JStr caller), (''targetApp'', JStr targetApp),
                    (''functionName'', JStr functionName), (''payload'', JObj payload)]) = Inr b"
      and "fetch js (sent tr) (POST (baseURL this @ ''/call-function'') b (Some 10000))
             = Response status body None"
      and "\<not> ok status"
  shows "\<exists>msg. fst (callFunction js this caller targetApp functionName payload tr) = Inl (ErrorObj ''Error'' msg) \<and>
          sublist (itoa status) msg \<and> sublist body msg"
proof (intro exI conjI)
  show "fst (callFunction js this caller targetApp functionName payload tr) =
          Inl (ErrorObj ''Error'' (''Server returned non-OK status: '' @ itoa status @ '' - '' @ body))"
    using assms by (simp add: callFunction_encoded Let_def)
  show "sublist (itoa status) (''Server returned non-OK status: '' @ itoa status @ '' - '' @ body)"
    by (rule sublist_appendI)
  show "sublist body (''Server returned non-OK status: '' @ itoa status @ '' - '' @ body)"
    by (rule sublist_end)
qed

lemma CallFunction_request_decodes:
  "json_Marshal env v = (b, None) \<and>
   http_NewRequest env ''POST'' (BaseURL sdk @ ''/call-function'') = None \<and>
   RoundTrip env (sent tr) (POST (BaseURL sdk @ ''/call-function'') b (Some 10000))
     = Response 200 body None
   \<longrightarrow> (json_Unmarshal env body = (m, Some e)
         \<longrightarrow> fst (CallFunction_request env sdk v targetApp functionName tr) =
               Inl (ErrorString (''error decoding response JSON: '' @ e)) \<and>
             (\<forall>st bd. fst (CallFunction_request env sdk v targetApp functionName tr) \<noteq>
                Inl (ErrorString (''server returned non-OK status: '' @ itoa st @ '' - '' @ bd)))) \<and>
       (json_Unmarshal env body = (m, None)
         \<longrightarrow> fst (CallFunction_request env sdk v targetApp functionName tr) = Inr m)"
  by (simp add: CallFunction_request_encoded Let_def)


lemma NewSuperAppSDK_APIKey:
  "snd (NewSuperAppSDK env k1 tr) = snd (NewSuperAppSDK env k2 tr) \<and>
   BaseURL (fst (NewSuperAppSDK env k1 tr)) = BaseURL (fst (NewSuperAppSDK env k2 tr))"
  by (simp add: NewSuperAppSDK_unfold split: outcome.splits)

lemma initialize_apiKey:
  "snd (create js k1 tr) = snd (create js k2 tr) \<and>
   baseURL (fst (create js k1 tr)) = baseURL (fst (create js k2 tr))"
  by (simp add: create_def initialize_unfold Let_def)

lemma Register_attempts_BaseURL:
  "BaseURL sdk = BaseURL sdk' \<Longrightarrow>
   Register_attempts env sdk payload 0 l tr = Register_attempts env sdk' payload 0 l tr"
  by (simp add: Register_attempts_unfold)

lemma CallFunction_request_BaseURL:
  "BaseURL sdk = BaseURL sdk' \<Longrightarrow>
   CallFunction_request env sdk v targetApp functionName tr =
   CallFunction_request env sdk' v targetApp functionName tr"
  unfolding CallFunction_request_def by (erule subst) (rule refl)

lemma register_attempts_baseURL:
  assumes "baseURL this = baseURL this'"
  shows "register_attempts js this payload 0 l tr = register_attempts js this' payload 0 l tr"
proof (cases "JSON_stringify js payload")
  case (Inl error)
  then show ?thesis by (simp add: register_attempts_unencodable)
next
  case (Inr b)
  then show ?thesis using assms by (simp add: register_attempts_unfold)
qed

lemma callFunction_baseURL:
  "baseURL this = baseURL this' \<Longrightarrow>
   callFunction js this caller targetApp functionName payload tr =
   callFunction js this' caller targetApp functionName payload tr"
  unfolding callFunction_def callFunction_try_def by (erule subst) (rule refl)

section \<open>Endpoint discovery\<close>

text \<open>
  Claim C1, as the code has it. Discovery probes the two candidates in their fixed order
  with \<^verbatim>\<open>GET <candidate>/list\<close>, adopts the first candidate whose probe succeeds, and
  makes no further probe once one has succeeded; when none succeeds it takes the
  default. For the Go constructor a probe succeeds when the client returns any response,
  whatever its status. For the TypeScript \<^verbatim>\<open>initialize\<close> a probe succeeds only when the
  response's status is 2xx (\<^verbatim>\<open>response.ok\<close>): a response with another status is passed
  over like a failed probe.
\<close>

theorem discovery_adopts_first_success:
  "(BaseURL (fst (NewSuperAppSDK env k tr)), sent (snd (NewSuperAppSDK env k tr))) =
     (if responded (RoundTrip env (sent tr) (probe ''http://localhost:8080/v1/super''))
      then (''http://localhost:8080/v1/super'', sent tr @ [probe ''http://localhost:8080/v1/super''])
      else if responded (RoundTrip env (sent tr @ [probe ''http://localhost:8080/v1/super''])
                           (probe ''http://host.docker.internal:8080/v1/super''))
      then (''http://host.docker.internal:8080/v1/super'',
            sent tr @ [probe ''http://localhost:8080/v1/super'',
                       probe ''http://host.docker.internal:8080/v1/super''])
      else (''http://localhost:8080/v1/super'',
            sent tr @ [probe ''http://localhost:8080/v1/super'',
                       probe ''http://host.docker.internal:8080/v1/super''])) \<and>
   (baseURL (fst (initialize js this tr)), sent (snd (initialize js this tr))) =
     (if responded_ok (fetch js (sent tr) (probe ''http://localhost:8080/v1/super''))
      then (''http://localhost:8080/v1/super'', sent tr @ [probe ''http://localhost:8080/v1/super''])
      else if responded_ok (fetch js (sent tr @ [probe ''http://localhost:8080/v1/super''])
                              (probe ''http://host.docker.internal:8080/v1/super''))
      then (''http://host.docker.internal:8080/v1/super'',
            sent tr @ [probe ''http://localhost:8080/v1/super'',
                       probe ''http://host.docker.internal:8080/v1/super''])
      else (''http://localhost:8080/v1/super'',
            sent tr @ [probe ''http://localhost:8080/v1/super'',
                       probe ''http://host.docker.internal:8080/v1/super''])) \<and>
   Method (probe u) = ''GET'' \<and> URL (probe u) = u @ ''/list''"
proof -
  have go: "(BaseURL (fst (NewSuperAppSDK env k tr)), sent (snd (NewSuperAppSDK env k tr))) =
     (if responded (RoundTrip env (sent tr) (probe ''http://localhost:8080/v1/super''))
      then (''http://localhost:8080/v1/super'', sent tr @ [probe ''http://localhost:8080/v1/super''])
      else if responded (RoundTrip env (sent tr @ [probe ''http://localhost:8080/v1/super''])
                           (probe ''http://host.docker.internal:8080/v1/super''))
      then (''http://host.docker.internal:8080/v1/super'',
            sent tr @ [probe ''http://localhost:8080/v1/super'',
                       probe ''http://host.docker.internal:8080/v1/super''])
      else (''http://localhost:8080/v1/super'',
            sent tr @ [probe ''http://localhost:8080/v1/super'',
                       probe ''http://host.docker.internal:8080/v1/super'']))"
    by (simp add: NewSuperAppSDK_unfold sent_append split: outcome.splits)
  have ts: "(baseURL (fst (initialize js this tr)), sent (snd (initialize js this tr))) =
     (if responded_ok (fetch js (sent tr) (probe ''http://localhost:8080/v1/super''))
      then (''http://localhost:8080/v1/super'', sent tr @ [probe ''http://localhost:8080/v1/super''])
      else if responded_ok (fetch js (sent tr @ [probe ''http://localhost:8080/v1/super''])
                              (probe ''http://host.docker.internal:8080/v1/super''))
      then (''http://host.docker.internal:8080/v1/super'',
            sent tr @ [probe ''http://localhost:8080/v1/super'',
                       probe ''http://host.docker.internal:8080/v1/super''])
      else (''http://localhost:8080/v1/super'',
            sent tr @ [probe ''http://localhost:8080/v1/super'',
                       probe ''http://host.docker.internal:8080/v1/super'']))"
    by (simp add: initialize_unfold Let_def sent_append split: outcome.splits)
  show ?thesis using go ts by (simp add: probe_def)
qed

theorem discovery_adopts_first_success_witness:
  "BaseURL (fst (NewSuperAppSDK
      (go_mock (replay (Failed (NetErr False ''connection refused'')) [Response 500 ''down'' None]))
      ''key'' [])) = ''http://localhost:8080/v1/super'' \<and>
   sent (snd (NewSuperAppSDK
      (go_mock (replay (Failed (NetErr False ''connection refused'')) [Response 500 ''down'' None]))
      ''key'' [])) = [probe ''http://localhost:8080/v1/super''] \<and>
   baseURL (fst (initialize
      (js_mock (replay (Failed (ErrorObj ''TypeError'' ''fetch failed'')) [Failed (ErrorObj ''AbortError'' ''aborted''), Response 204 [] None]))
      (SuperAppSDK_new ''key'') [])) = ''http://host.docker.internal:8080/v1/super''"
  using discovery_adopts_first_success
     [where env = "go_mock (replay (Failed (NetErr False ''connection refused'')) [Response 500 ''down'' None])"
        and k = "''key''" and tr = "[]"
        and js = "js_mock (replay (Failed (ErrorObj ''TypeError'' ''fetch failed'')) [Failed (ErrorObj ''AbortError'' ''aborted''), Response 204 [] None])"
        and this = "SuperAppSDK_new ''key''"]
  by (simp add: go_mock_def js_mock_def replay_def ok_def)

text \<open>
  The claim as written (any response counts, whatever its status) fails for
  \<^verbatim>\<open>initialize\<close>: the first candidate answers 404, and the second is probed and adopted.
\<close>

theorem initialize_skips_reachable_candidate:
  "baseURL (fst (create
      (js_mock (replay (Failed (ErrorObj ''TypeError'' ''fetch failed'')) [Response 404 ''not found'' None, Response 200 ''[]'' None]))
      ''key'' [])) = ''http://host.docker.internal:8080/v1/super'' \<and>
   sent (snd (create
      (js_mock (replay (Failed (ErrorObj ''TypeError'' ''fetch failed'')) [Response 404 ''not found'' None, Response 200 ''[]'' None]))
      ''key'' [])) = [probe ''http://localhost:8080/v1/super'', probe ''http://host.docker.internal:8080/v1/super'']"
  by (simp add: create_def initialize_unfold Let_def js_mock_def replay_def ok_def)

text \<open>
  Claim C2. Initialization always ends with a base URL that is not empty, and when no
  probe succeeds the base URL is the default \<^verbatim>\<open>http://localhost:8080/v1/super\<close>. Both
  functions are total: the Go constructor has no error result, and every exception of
  \<^verbatim>\<open>initialize\<close> is caught inside its loop. For \<^verbatim>\<open>initialize\<close> the hypothesis is the
  weaker one that no probe got a 2xx response, which holds in particular when no probe
  got a response at all.
\<close>

theorem initialization_sets_baseURL:
  "BaseURL (fst (NewSuperAppSDK env k tr)) \<noteq> [] \<and>
   (\<not> responded (RoundTrip env (sent tr) (probe ''http://localhost:8080/v1/super'')) \<and>
    \<not> responded (RoundTrip env (sent tr @ [probe ''http://localhost:8080/v1/super''])
                    (probe ''http://host.docker.internal:8080/v1/super''))
    \<longrightarrow> BaseURL (fst (NewSuperAppSDK env k tr)) = ''http://localhost:8080/v1/super'') \<and>
   baseURL (fst (initialize js this tr)) \<noteq> [] \<and>
   (\<not> responded_ok (fetch js (sent tr) (probe ''http://localhost:8080/v1/super'')) \<and>
    \<not> responded_ok (fetch js (sent tr @ [probe ''http://localhost:8080/v1/super''])
                       (probe ''http://host.docker.internal:8080/v1/super''))
    \<longrightarrow> baseURL (fst (initialize js this tr)) = ''http://localhost:8080/v1/super'')"
proof -
  have go: "BaseURL (fst (NewSuperAppSDK env k tr)) \<noteq> []"
    by (simp add: NewSuperAppSDK_unfold split: outcome.splits)
  have go_default: "\<not> responded (RoundTrip env (sent tr) (probe ''http://localhost:8080/v1/super'')) \<and>
    \<not> responded (RoundTrip env (sent tr @ [probe ''http://localhost:8080/v1/super''])
                    (probe ''http://host.docker.internal:8080/v1/super''))
    \<longrightarrow> BaseURL (fst (NewSuperAppSDK env k tr)) = ''http://localhost:8080/v1/super''"
    by (simp add: NewSuperAppSDK_unfold split: outcome.splits)
  have ts: "baseURL (fst (initialize js this tr)) \<noteq> []"
    by (simp add: initialize_unfold Let_def)
  have ts_default: "\<not> responded_ok (fetch js (sent tr) (probe ''http://localhost:8080/v1/super'')) \<and>
    \<not> responded_ok (fetch js (sent tr @ [probe ''http://localhost:8080/v1/super''])
                       (probe ''http://host.docker.internal:8080/v1/super''))
    \<longrightarrow> baseURL (fst (initialize js this tr)) = ''http://localhost:8080/v1/super''"
    by (simp add: initialize_unfold Let_def)
  show ?thesis using go go_default ts ts_default by blast
qed

theorem initialization_sets_baseURL_witness:
  "BaseURL (fst (NewSuperAppSDK (go_mock (replay (Failed (NetErr False ''connection refused'')) []))
      ''key'' [])) = ''http://localhost:8080/v1/super'' \<and>
   baseURL (fst (initialize
      (js_mock (replay (Failed (ErrorObj ''TypeError'' ''fetch failed'')) [Response 503 [] None]))
      (SuperAppSDK_new ''key'') [])) = ''http://localhost:8080/v1/super''"
  using initialization_sets_baseURL
     [where env = "go_mock (replay (Failed (NetErr False ''connection refused'')) [])"
        and k = "''key''" and tr = "[]"
        and js = "js_mock (replay (Failed (ErrorObj ''TypeError'' ''fetch failed'')) [Response 503 [] None])"
        and this = "SuperAppSDK_new ''key''"]
  by (simp add: go_mock_def js_mock_def replay_def ok_def)

section \<open>Registration\<close>

text \<open>
  Claim C3, as the code has it. In \<^verbatim>\<open>src/unnamed/part_000\<close> and in the TypeScript file,
  \<^verbatim>\<open>register\<close> encodes an object with exactly the fields \<^verbatim>\<open>appName\<close>, \<^verbatim>\<open>functions\<close> and
  \<^verbatim>\<open>url\<close>, where \<^verbatim>\<open>url\<close> is \<^verbatim>\<open>appURL\<close> without its last character when that is a slash
  and \<^verbatim>\<open>appURL\<close> itself otherwise, and the list of functions is passed on as it is; each
  of its one to three requests is a POST of these bytes to \<^verbatim>\<open><baseURL>/register\<close>.
  \<^verbatim>\<open>Register\<close> of \<^verbatim>\<open>src/go/main.go\<close> has no \<^verbatim>\<open>appURL\<close> parameter and encodes exactly the
  fields \<^verbatim>\<open>appName\<close> and \<^verbatim>\<open>functions\<close>.
\<close>

theorem register_payload_fields:
  "Register_payload env appName funcs appURL =
     fst (json_Marshal env (JObj [(''appName'', JStr appName),
            (''functions'', JArr (map JStr funcs)),
            (''url'', JStr (if appURL \<noteq> [] \<and> last appURL = CHR ''/'' then butlast appURL else appURL))])) \<and>
   sent (snd (Register env sdk appName funcs appURL tr)) \<in>
     {sent tr @ [POST (BaseURL sdk @ ''/register'') (Register_payload env appName funcs appURL) None],
      sent tr @ [POST (BaseURL sdk @ ''/register'') (Register_payload env appName funcs appURL) None,
                 POST (BaseURL sdk @ ''/register'') (Register_payload env appName funcs appURL) None],
      sent tr @ [POST (BaseURL sdk @ ''/register'') (Register_payload env appName funcs appURL) None,
                 POST (BaseURL sdk @ ''/register'') (Register_payload env appName funcs appURL) None,
                 POST (BaseURL sdk @ ''/register'') (Register_payload env appName funcs appURL) None]} \<and>
   register_payload appName funcs appURL =
     JObj [(''appName'', JStr appName), (''functions'', JArr (map JStr funcs)),
           (''url'', JStr (if appURL \<noteq> [] \<and> last appURL = CHR ''/'' then butlast appURL else appURL))] \<and>
   (JSON_stringify js (register_payload appName funcs appURL) = Inr b \<longrightarrow>
    sent (snd (register js this appName funcs appURL tr)) \<in>
     {sent tr @ [POST (baseURL this @ ''/register'') b None],
      sent tr @ [POST (baseURL this @ ''/register'') b None, POST (baseURL this @ ''/register'') b None],
      sent tr @ [POST (baseURL this @ ''/register'') b None, POST (baseURL this @ ''/register'') b None,
                 POST (baseURL this @ ''/register'') b None]}) \<and>
   Register_go_main_payload env appName funcs =
     fst (json_Marshal env (JObj [(''appName'', JStr appName), (''functions'', JArr (map JStr funcs))])) \<and>
   sent (snd (Register_go_main env sdk appName funcs tr)) \<in>
     {sent tr @ [POST (BaseURL sdk @ ''/register'') (Register_go_main_payload env appName funcs) None],
      sent tr @ [POST (BaseURL sdk @ ''/register'') (Register_go_main_payload env appName funcs) None,
                 POST (BaseURL sdk @ ''/register'') (Register_go_main_payload env appName funcs) None],
      sent tr @ [POST (BaseURL sdk @ ''/register'') (Register_go_main_payload env appName funcs) None,
                 POST (BaseURL sdk @ ''/register'') (Register_go_main_payload env appName funcs) None,
                 POST (BaseURL sdk @ ''/register'') (Register_go_main_payload env appName funcs) None]}"
proof -
  have ts_payload: "register_payload appName funcs appURL =
     JObj [(''appName'', JStr appName), (''functions'', JArr (map JStr funcs)),
           (''url'', JStr (if appURL \<noteq> [] \<and> last appURL = CHR ''/'' then butlast appURL else appURL))]"
    by (cases "appURL = []") (simp_all add: register_payload_def)
  have ts: "JSON_stringify js (register_payload appName funcs appURL) = Inr b \<longrightarrow>
    sent (snd (register js this appName funcs appURL tr)) \<in>
     {sent tr @ [POST (baseURL this @ ''/register'') b None],
      sent tr @ [POST (baseURL this @ ''/register'') b None, POST (baseURL this @ ''/register'') b None],
      sent tr @ [POST (baseURL this @ ''/register'') b None, POST (baseURL this @ ''/register'') b None,
                 POST (baseURL this @ ''/register'') b None]}"
    unfolding register_def using register_attempts_sent by blast
  show ?thesis
    using Register_payload_eq [of env appName funcs appURL] ts_payload ts
      Register_attempts_sent [of env sdk "Register_payload env appName funcs appURL" tr]
      Register_attempts_sent [of env sdk "Register_go_main_payload env appName funcs" tr]
    unfolding Register_def Register_go_main_def Register_go_main_payload_def [symmetric]
    by (simp add: Register_go_main_payload_def)
qed

theorem register_payload_fields_witness:
  "Register_payload (go_mock (replay (Response 200 ''ok'' None) [])) ''mini'' [] ''http://x.test:3000/''
     = ''{\"appName\":\"mini\",\"functions\":[],\"url\":\"http://x.test:3000\"}'' \<and>
   register_payload ''mini'' [''f''] ''http://x.test:3000//''
     = JObj [(''appName'', JStr ''mini''), (''functions'', JArr [JStr ''f'']), (''url'', JStr ''http://x.test:3000/'')] \<and>
   hd (sent (snd (register (js_mock (replay (Response 200 ''ok'' None) []))
                \<lparr>apiKey = ''key'', baseURL = ''http://localhost:8080/v1/super''\<rparr>
                ''mini'' [''f''] ''http://x.test:3000'' [])))
     = POST ''http://localhost:8080/v1/super/register''
          ''{\"appName\":\"mini\",\"functions\":[\"f\"],\"url\":\"http://x.test:3000\"}'' None"
proof -
  have go: "Register_payload (go_mock (replay (Response 200 ''ok'' None) [])) ''mini'' [] ''http://x.test:3000/''
     = ''{\"appName\":\"mini\",\"functions\":[],\"url\":\"http://x.test:3000\"}''"
    using register_payload_fields
      [where env = "go_mock (replay (Response 200 ''ok'' None) [])" and appName = "''mini''"
         and funcs = "[]" and appURL = "''http://x.test:3000/''"
         and sdk = "\<lparr>APIKey = ''key'', BaseURL = ''http://localhost:8080/v1/super''\<rparr>" and tr = "[]"
         and js = "js_mock (replay (Response 200 ''ok'' None) [])"
         and this = "\<lparr>apiKey = ''key'', baseURL = ''http://localhost:8080/v1/super''\<rparr>"
         and b = "[]"]
    by (simp add: go_mock_def)
  have ts1: "register_payload ''mini'' [''f''] ''http://x.test:3000//''
     = JObj [(''appName'', JStr ''mini''), (''functions'', JArr [JStr ''f'']), (''url'', JStr ''http://x.test:3000/'')]"
    using register_payload_fields
      [where env = "go_mock (replay (Response 200 ''ok'' None) [])" and appName = "''mini''"
         and funcs = "[''f'']" and appURL = "''http://x.test:3000//''"
         and sdk = "\<lparr>APIKey = ''key'', BaseURL = ''http://localhost:8080/v1/super''\<rparr>" and tr = "[]"
         and js = "js_mock (replay (Response 200 ''ok'' None) [])"
         and this = "\<lparr>apiKey = ''key'', baseURL = ''http://localhost:8080/v1/super''\<rparr>"
         and b = "[]"]
    by simp
  have ts2: "hd (sent (snd (register (js_mock (replay (Response 200 ''ok'' None) []))
                \<lparr>apiKey = ''key'', baseURL = ''http://localhost:8080/v1/super''\<rparr>
                ''mini'' [''f''] ''http://x.test:3000'' [])))
     = POST ''http://localhost:8080/v1/super/register''
          ''{\"appName\":\"mini\",\"functions\":[\"f\"],\"url\":\"http://x.test:3000\"}'' None"
    using register_payload_fields
      [where env = "go_mock (replay (Response 200 ''ok'' None) [])" and appName = "''mini''"
         and funcs = "[''f'']" and appURL = "''http://x.test:3000''"
         and sdk = "\<lparr>APIKey = ''key'', BaseURL = ''http://localhost:8080/v1/super''\<rparr>" and tr = "[]"
         and js = "js_mock (replay (Response 200 ''ok'' None) [])"
         and this = "\<lparr>apiKey = ''key'', baseURL = ''http://localhost:8080/v1/super''\<rparr>"
         and b = "''{\"appName\":\"mini\",\"functions\":[\"f\"],\"url\":\"http://x.test:3000\"}''"]
    by (auto simp add: js_mock_def)
  show ?thesis using go ts1 ts2 by simp
qed

text \<open>
  The claim as written (every registration payload has the field \<^verbatim>\<open>url\<close>) fails for
  \<^verbatim>\<open>Register\<close> of \<^verbatim>\<open>src/go/main.go\<close>: the body it posts has two fields.
\<close>

theorem Register_go_main_sends_no_url:
  "sent (snd (Register_go_main (go_mock (replay (Response 200 ''ok'' None) []))
                \<lparr>APIKey = ''key'', BaseURL = ''http://localhost:8080/v1/super''\<rparr> ''mini'' [''f''] []))
     = [POST ''http://localhost:8080/v1/super/register'' ''{\"appName\":\"mini\",\"functions\":[\"f\"]}'' None]"
  by (simp add: Register_go_main_def Register_go_main_payload_def Register_attempts_unfold Let_def
        go_mock_def replay_def)

text \<open>
  Claim C4. \<^verbatim>\<open>register\<close> makes at most three POST attempts, sleeps one second after
  each failed attempt, returns success at the first attempt that succeeds and makes no
  attempt after it, and when all three fail returns the error of the third: the
  transport error, or the status and body of the response. An attempt succeeds on status
  200 in Go and on a 2xx status in TypeScript (\<open>attempt_error\<close>, \<open>attempt_error_ts\<close>).
  \<open>effects\<close> is the trace without its log lines.
\<close>

theorem register_retries_three_times:
  "(let req = POST (BaseURL sdk @ ''/register'') (Register_payload env appName funcs appURL) None;
        a1 = attempt_error (RoundTrip env (sent tr) req);
        a2 = attempt_error (RoundTrip env (sent tr @ [req]) req);
        a3 = attempt_error (RoundTrip env (sent tr @ [req, req]) req);
        R = Register env sdk appName funcs appURL tr
    in fst R = (if a1 = None \<or> a2 = None then None else a3) \<and>
       effects (snd R) = effects tr @
         (if a1 = None then [Sent req]
          else if a2 = None then [Sent req, Slept 1000, Sent req]
          else if a3 = None then [Sent req, Slept 1000, Sent req, Slept 1000, Sent req]
          else [Sent req, Slept 1000, Sent req, Slept 1000, Sent req, Slept 1000])) \<and>
   (let req = POST (BaseURL sdk @ ''/register'') (Register_go_main_payload env appName funcs) None;
        a1 = attempt_error (RoundTrip env (sent tr) req);
        a2 = attempt_error (RoundTrip env (sent tr @ [req]) req);
        a3 = attempt_error (RoundTrip env (sent tr @ [req, req]) req);
        R = Register_go_main env sdk appName funcs tr
    in fst R = (if a1 = None \<or> a2 = None then None else a3) \<and>
       effects (snd R) = effects tr @
         (if a1 = None then [Sent req]
          else if a2 = None then [Sent req, Slept 1000, Sent req]
          else if a3 = None then [Sent req, Slept 1000, Sent req, Slept 1000, Sent req]
          else [Sent req, Slept 1000, Sent req, Slept 1000, Sent req, Slept 1000])) \<and>
   (JSON_stringify js (register_payload appName funcs appURL) = Inr b \<longrightarrow>
    (let req = POST (baseURL this @ ''/register'') b None;
         a1 = attempt_error_ts (fetch js (sent tr) req);
         a2 = attempt_error_ts (fetch js (sent tr @ [req]) req);
         a3 = attempt_error_ts (fetch js (sent tr @ [req, req]) req);
         R = register js this appName funcs appURL tr
     in fst R = (if a1 = None \<or> a2 = None then Inr ()
                 else case a3 of None \<Rightarrow> Inr () | Some e \<Rightarrow> Inl e) \<and>
        effects (snd R) = effects tr @
          (if a1 = None then [Sent req]
           else if a2 = None then [Sent req, Slept 1000, Sent req]
           else if a3 = None then [Sent req, Slept 1000, Sent req, Slept 1000, Sent req]
           else [Sent req, Slept 1000, Sent req, Slept 1000, Sent req, Slept 1000])))"
proof -
  have go: "\<And>payload. (let req = POST (BaseURL sdk @ ''/register'') payload None;
        a1 = attempt_error (RoundTrip env (sent tr) req);
        a2 = attempt_error (RoundTrip env (sent tr @ [req]) req);
        a3 = attempt_error (RoundTrip env (sent tr @ [req, req]) req);
        R = Register_attempts env sdk payload 0 None tr
    in fst R = (if a1 = None \<or> a2 = None then None else a3) \<and>
       effects (snd R) = effects tr @
         (if a1 = None then [Sent req]
          else if a2 = None then [Sent req, Slept 1000, Sent req]
          else if a3 = None then [Sent req, Slept 1000, Sent req, Slept 1000, Sent req]
          else [Sent req, Slept 1000, Sent req, Slept 1000, Sent req, Slept 1000]))"
    by (simp add: Register_attempts_unfold Let_def effects_append)
  have ts: "JSON_stringify js (register_payload appName funcs appURL) = Inr b \<longrightarrow>
    (let req = POST (baseURL this @ ''/register'') b None;
         a1 = attempt_error_ts (fetch js (sent tr) req);
         a2 = attempt_error_ts (fetch js (sent tr @ [req]) req);
         a3 = attempt_error_ts (fetch js (sent tr @ [req, req]) req);
         R = register js this appName funcs appURL tr
     in fst R = (if a1 = None \<or> a2 = None then Inr ()
                 else case a3 of None \<Rightarrow> Inr () | Some e \<Rightarrow> Inl e) \<and>
        effects (snd R) = effects tr @
          (if a1 = None then [Sent req]
           else if a2 = None then [Sent req, Slept 1000, Sent req]
           else if a3 = None then [Sent req, Slept 1000, Sent req, Slept 1000, Sent req]
           else [Sent req, Slept 1000, Sent req, Slept 1000, Sent req, Slept 1000]))"
    by (auto simp add: register_def register_attempts_unfold Let_def effects_append)
  show ?thesis
    using go [of "Register_payload env appName funcs appURL"]
          go [of "Register_go_main_payload env appName funcs"] ts
    unfolding Register_def Register_go_main_def by blast
qed

theorem register_retries_three_times_witness:
  "fst (Register
     (go_mock (replay (Failed (NetErr False ''connection refused''))
        [Failed (NetErr False ''connection refused''), Response 503 ''starting'' None, Response 200 ''ok'' None]))
     \<lparr>APIKey = ''key'', BaseURL = ''http://localhost:8080/v1/super''\<rparr> ''mini'' [''f''] ''http://x.test:3000/'' [])
   = None \<and>
   length (effects (snd (Register
     (go_mock (replay (Failed (NetErr False ''connection refused''))
        [Failed (NetErr False ''connection refused''), Response 503 ''starting'' None, Response 200 ''ok'' None]))
     \<lparr>APIKey = ''key'', BaseURL = ''http://localhost:8080/v1/super''\<rparr> ''mini'' [''f''] ''http://x.test:3000/'' [])))
   = 5 \<and>
   fst (Register_go_main
     (go_mock (replay (Failed (NetErr False ''connection refused''))
        [Failed (NetErr False ''connection refused''), Response 503 ''starting'' None, Response 200 ''ok'' None]))
     \<lparr>APIKey = ''key'', BaseURL = ''http://localhost:8080/v1/super''\<rparr> ''mini'' [''f''] [])
   = None \<and>
   fst (register
     (js_mock (replay (Response 500 ''boom'' None) []))
     \<lparr>apiKey = ''key'', baseURL = ''http://localhost:8080/v1/super''\<rparr> ''mini'' [''f''] ''http://x.test:3000/'' [])
   = Inl (ErrorObj ''Error'' ''Server returned non-OK status: 500 - boom'')"
  using register_retries_three_times
    [where env = "go_mock (replay (Failed (NetErr False ''connection refused''))
        [Failed (NetErr False ''connection refused''), Response 503 ''starting'' None, Response 200 ''ok'' None])"
       and sdk = "\<lparr>APIKey = ''key'', BaseURL = ''http://localhost:8080/v1/super''\<rparr>"
       and appName = "''mini''" and funcs = "[''f'']" and appURL = "''http://x.test:3000/''" and tr = "[]"
       and js = "js_mock (replay (Response 500 ''boom'' None) [])"
       and this = "\<lparr>apiKey = ''key'', baseURL = ''http://localhost:8080/v1/super''\<rparr>"
       and b = "render (register_payload ''mini'' [''f''] ''http://x.test:3000/'')"]
  by (simp add: go_mock_def js_mock_def replay_def register_payload_def ok_def Let_def itoa_def digits.simps)

text \<open>
  Claim C10. The Go \<^verbatim>\<open>Register\<close> never returns an encoding error: for every
  \<^verbatim>\<open>json.Marshal\<close>, failing or not, its result is \<^verbatim>\<open>nil\<close>, a transport error or a
  non-OK-status error, and its requests carry the bytes \<^verbatim>\<open>json.Marshal\<close> returned.
\<close>

theorem register_returns_no_encode_error:
  "(let req = POST (BaseURL sdk @ ''/register'')
                (fst (json_Marshal env (JObj [(''appName'', JStr appName),
                        (''functions'', JArr (map JStr funcs)),
                        (''url'', JStr (if appURL \<noteq> [] \<and> last appURL = CHR ''/'' then butlast appURL else appURL))])))
                None;
        R = Register env sdk appName funcs appURL tr
    in (fst R = None \<or> (\<exists>e. fst R = Some (TransportError e)) \<or>
        (\<exists>status body. status \<noteq> 200 \<and>
           fst R = Some (ErrorString (''server returned non-OK status: '' @ itoa status @ '' - '' @ body)))) \<and>
       sent (snd R) \<in> {sent tr @ [req], sent tr @ [req, req], sent tr @ [req, req, req]}) \<and>
   (let req = POST (BaseURL sdk @ ''/register'')
                (fst (json_Marshal env (JObj [(''appName'', JStr appName),
                        (''functions'', JArr (map JStr funcs))])))
                None;
        R = Register_go_main env sdk appName funcs tr
    in (fst R = None \<or> (\<exists>e. fst R = Some (TransportError e)) \<or>
        (\<exists>status body. status \<noteq> 200 \<and>
           fst R = Some (ErrorString (''server returned non-OK status: '' @ itoa status @ '' - '' @ body)))) \<and>
       sent (snd R) \<in> {sent tr @ [req], sent tr @ [req, req], sent tr @ [req, req, req]})"
proof -
  have shape: "\<And>out. attempt_error out = None \<or> (\<exists>e. attempt_error out = Some (TransportError e)) \<or>
        (\<exists>status body. status \<noteq> 200 \<and>
           attempt_error out = Some (ErrorString (''server returned non-OK status: '' @ itoa status @ '' - '' @ body)))"
    subgoal for out by (cases out) auto
    done
  have go: "\<And>payload. (let req = POST (BaseURL sdk @ ''/register'') payload None;
        R = Register_attempts env sdk payload 0 None tr
    in (fst R = None \<or> (\<exists>e. fst R = Some (TransportError e)) \<or>
        (\<exists>status body. status \<noteq> 200 \<and>
           fst R = Some (ErrorString (''server returned non-OK status: '' @ itoa status @ '' - '' @ body)))) \<and>
       sent (snd R) \<in> {sent tr @ [req], sent tr @ [req, req], sent tr @ [req, req, req]})"
    subgoal for payload
      using shape [of "RoundTrip env (sent tr @ [POST (BaseURL sdk @ ''/register'') payload None,
                          POST (BaseURL sdk @ ''/register'') payload None])
                        (POST (BaseURL sdk @ ''/register'') payload None)"]
      by (simp add: Register_attempts_unfold Let_def sent_append)
    done
  show ?thesis
    unfolding Register_def Register_go_main_def Register_payload_eq [symmetric]
      Register_go_main_payload_def [symmetric]
    using go [of "Register_payload env appName funcs appURL"]
          go [of "Register_go_main_payload env appName funcs"]
    by blast
qed

theorem register_returns_no_encode_error_witness:
  "Register
     ((go_mock (replay (Response 200 ''ok'' None) []))
        \<lparr>json_Marshal := (\<lambda>v. ([], Some ''json: unsupported type''))\<rparr>)
     \<lparr>APIKey = ''key'', BaseURL = ''http://localhost:8080/v1/super''\<rparr> ''mini'' [''f''] ''http://x.test:3000/'' []
   = (None, [Sent (POST ''http://localhost:8080/v1/super/register'' [] None),
             Logged (RegisterResponse 1 ''ok'')])"
proof -
  have "sent (snd (Register
     ((go_mock (replay (Response 200 ''ok'' None) []))
        \<lparr>json_Marshal := (\<lambda>v. ([], Some ''json: unsupported type''))\<rparr>)
     \<lparr>APIKey = ''key'', BaseURL = ''http://localhost:8080/v1/super''\<rparr> ''mini'' [''f''] ''http://x.test:3000/'' []))
     \<noteq> []"
    using register_returns_no_encode_error
      [where env = "(go_mock (replay (Response 200 ''ok'' None) []))
                      \<lparr>json_Marshal := (\<lambda>v. ([], Some ''json: unsupported type''))\<rparr>"
         and sdk = "\<lparr>APIKey = ''key'', BaseURL = ''http://localhost:8080/v1/super''\<rparr>"
         and appName = "''mini''" and funcs = "[''f'']" and appURL = "''http://x.test:3000/''"
         and tr = "[]"]
    by (auto simp add: Let_def)
  then show ?thesis
    by (simp add: Register_def Register_payload_def Register_attempts_unfold go_mock_def replay_def
          Let_def)
qed

section \<open>Remote invocation\<close>

text \<open>
  Claim C5, as the code has it. When the request body can be encoded (and, in Go,
  \<^verbatim>\<open>http.NewRequest\<close> accepts the URL), \<^verbatim>\<open>callFunction\<close> makes exactly one POST to
  \<^verbatim>\<open><baseURL>/call-function\<close> with the JSON content type and a timeout of 10 seconds,
  whatever the outcome; when the body cannot be encoded it makes no request and fails
  with the encoder's error. In \<^verbatim>\<open>src/unnamed/part_000\<close> and in the TypeScript file the
  body encodes exactly the fields \<^verbatim>\<open>caller\<close>, \<^verbatim>\<open>targetApp\<close>, \<^verbatim>\<open>functionName\<close> and
  \<^verbatim>\<open>payload\<close>; \<^verbatim>\<open>CallFunction\<close> of \<^verbatim>\<open>src/go/main.go\<close> takes a \<^verbatim>\<open>url\<close> as well and encodes
  it as a fifth field.
\<close>

theorem callFunction_posts_once:
  "(json_Marshal env (JObj [(''caller'', JStr caller), (''targetApp'', JStr targetApp),
                (''functionName'', JStr functionName), (''payload'', JObj payload)]) = (b, None) \<and>
      http_NewRequest env ''POST'' (BaseURL sdk @ ''/call-function'') = None
    \<longrightarrow> sent (snd (CallFunction env sdk caller targetApp functionName payload tr)) =
          sent tr @ [POST (BaseURL sdk @ ''/call-function'') b (Some 10000)]) \<and>
   (json_Marshal env (JObj [(''caller'', JStr caller), (''targetApp'', JStr targetApp),
                (''functionName'', JStr functionName), (''payload'', JObj payload)]) = (b, Some e)
    \<longrightarrow> (CallFunction env sdk caller targetApp functionName payload tr) = (Inl (ErrorString (''error encoding request JSON: '' @ e)), tr)) \<and>
   (json_Marshal env (JObj [(''caller'', JStr caller), (''targetApp'', JStr targetApp),
                (''functionName'', JStr functionName), (''payload'', JObj payload)]) = (b, None) \<and>
      http_NewRequest env ''POST'' (BaseURL sdk @ ''/call-function'') = Some e
    \<longrightarrow> fst (CallFunction env sdk caller targetApp functionName payload tr) = Inl (ErrorString (''error creating request: '' @ e)) \<and>
        sent (snd (CallFunction env sdk caller targetApp functionName payload tr)) = sent tr) \<and>
   (json_Marshal env (JObj [(''url'', JStr url), (''caller'', JStr caller), (''targetApp'', JStr targetApp),
                (''functionName'', JStr functionName), (''payload'', JObj payload)]) = (b, None) \<and>
      http_NewRequest env ''POST'' (BaseURL sdk @ ''/call-function'') = None
    \<longrightarrow> sent (snd (CallFunction_go_main env sdk url caller targetApp functionName payload tr)) =
          sent tr @ [POST (BaseURL sdk @ ''/call-function'') b (Some 10000)]) \<and>
   (json_Marshal env (JObj [(''url'', JStr url), (''caller'', JStr caller), (''targetApp'', JStr targetApp),
                (''functionName'', JStr functionName), (''payload'', JObj payload)]) = (b, Some e)
    \<longrightarrow> (CallFunction_go_main env sdk url caller targetApp functionName payload tr) = (Inl (ErrorString (''error encoding request JSON: '' @ e)), tr)) \<and>
   (json_Marshal env (JObj [(''url'', JStr url), (''caller'', JStr caller), (''targetApp'', JStr targetApp),
                (''functionName'', JStr functionName), (''payload'', JObj payload)]) = (b, None) \<and>
      http_NewRequest env ''POST'' (BaseURL sdk @ ''/call-function'') = Some e
    \<longrightarrow> fst (CallFunction_go_main env sdk url caller targetApp functionName payload tr) = Inl (ErrorString (''error creating request: '' @ e)) \<and>
        sent (snd (CallFunction_go_main env sdk url caller targetApp functionName payload tr)) = sent tr) \<and>
   (JSON_stringify js (JObj [(''caller'', JStr caller), (''targetApp'', JStr targetApp),
                (''functionName'', JStr functionName), (''payload'', JObj payload)]) = Inr b
    \<longrightarrow> sent (snd (callFunction js this caller targetApp functionName payload tr)) =
          sent tr @ [POST (baseURL this @ ''/call-function'') b (Some 10000)]) \<and>
   (JSON_stringify js (JObj [(''caller'', JStr caller), (''targetApp'', JStr targetApp),
                (''functionName'', JStr functionName), (''payload'', JObj payload)]) = Inl x
    \<longrightarrow> callFunction js this caller targetApp functionName payload tr = (Inl x, tr))"
proof -
  have ts: "(JSON_stringify js (JObj [(''caller'', JStr caller), (''targetApp'', JStr targetApp),
                (''functionName'', JStr functionName), (''payload'', JObj payload)]) = Inr b
    \<longrightarrow> sent (snd (callFunction js this caller targetApp functionName payload tr)) =
          sent tr @ [POST (baseURL this @ ''/call-function'') b (Some 10000)]) \<and>
   (JSON_stringify js (JObj [(''caller'', JStr caller), (''targetApp'', JStr targetApp),
                (''functionName'', JStr functionName), (''payload'', JObj payload)]) = Inl x
    \<longrightarrow> callFunction js this caller targetApp functionName payload tr = (Inl x, tr))"
    by (auto simp add: callFunction_encoded callFunction_unencodable Let_def sent_append
          split: outcome.splits option.splits sum.splits)
  show ?thesis
    unfolding CallFunction_def CallFunction_go_main_def
    using CallFunction_request_posts_once
            [of env "JObj [(''caller'', JStr caller), (''targetApp'', JStr targetApp),
                (''functionName'', JStr functionName), (''payload'', JObj payload)]" b sdk targetApp functionName tr e]
          CallFunction_request_posts_once
            [of env "JObj [(''url'', JStr url), (''caller'', JStr caller), (''targetApp'', JStr targetApp),
                (''functionName'', JStr functionName), (''payload'', JObj payload)]" b sdk targetApp functionName tr e]
          ts
    by blast
qed

theorem callFunction_posts_once_witness:
  "sent (snd (CallFunction (go_mock (replay (Response 200 ''null'' None) []))
      \<lparr>APIKey = ''key'', BaseURL = ''http://localhost:8080/v1/super''\<rparr>
      ''app1'' ''app2'' ''fn'' [(''x'', JNum 1)] []))
   = [POST ''http://localhost:8080/v1/super/call-function''
        (render (JObj [(''caller'', JStr ''app1''), (''targetApp'', JStr ''app2''),
                       (''functionName'', JStr ''fn''), (''payload'', JObj [(''x'', JNum 1)])]))
        (Some 10000)] \<and>
   sent (snd (callFunction (js_mock (replay (Failed (ErrorObj ''TypeError'' ''fetch failed'')) []))
      \<lparr>apiKey = ''key'', baseURL = ''http://localhost:8080/v1/super''\<rparr>
      ''app1'' ''app2'' ''fn'' [(''x'', JNum 1)] []))
   = [POST ''http://localhost:8080/v1/super/call-function''
        (render (JObj [(''caller'', JStr ''app1''), (''targetApp'', JStr ''app2''),
                       (''functionName'', JStr ''fn''), (''payload'', JObj [(''x'', JNum 1)])]))
        (Some 10000)] \<and>
   callFunction (js_mock (replay (Response 200 ''null'' None) []))
      \<lparr>apiKey = ''key'', baseURL = ''http://localhost:8080/v1/super''\<rparr>
      ''app1'' ''app2'' ''fn'' [(''big'', JOther ''BigInt'')] []
   = (Inl (ErrorObj ''TypeError'' ''Do not know how to serialize a BigInt''), [])"
proof -
  have one: "sent (snd (CallFunction (go_mock (replay (Response 200 ''null'' None) []))
      \<lparr>APIKey = ''key'', BaseURL = ''http://localhost:8080/v1/super''\<rparr>
      ''app1'' ''app2'' ''fn'' [(''x'', JNum 1)] []))
   = [POST ''http://localhost:8080/v1/super/call-function''
        (render (JObj [(''caller'', JStr ''app1''), (''targetApp'', JStr ''app2''),
                       (''functionName'', JStr ''fn''), (''payload'', JObj [(''x'', JNum 1)])]))
        (Some 10000)] \<and>
   sent (snd (callFunction (js_mock (replay (Failed (ErrorObj ''TypeError'' ''fetch failed'')) []))
      \<lparr>apiKey = ''key'', baseURL = ''http://localhost:8080/v1/super''\<rparr>
      ''app1'' ''app2'' ''fn'' [(''x'', JNum 1)] []))
   = [POST ''http://localhost:8080/v1/super/call-function''
        (render (JObj [(''caller'', JStr ''app1''), (''targetApp'', JStr ''app2''),
                       (''functionName'', JStr ''fn''), (''payload'', JObj [(''x'', JNum 1)])]))
        (Some 10000)]"
    using callFunction_posts_once
      [where env = "go_mock (replay (Response 200 ''null'' None) [])"
         and sdk = "\<lparr>APIKey = ''key'', BaseURL = ''http://localhost:8080/v1/super''\<rparr>"
         and caller = "''app1''" and targetApp = "''app2''" and functionName = "''fn''"
         and payload = "[(''x'', JNum 1)]" and tr = "[]" and url = "[]" and e = "[]" and x = "Thrown []"
         and js = "js_mock (replay (Failed (ErrorObj ''TypeError'' ''fetch failed'')) [])"
         and this = "\<lparr>apiKey = ''key'', baseURL = ''http://localhost:8080/v1/super''\<rparr>"
         and b = "render (JObj [(''caller'', JStr ''app1''), (''targetApp'', JStr ''app2''),
                       (''functionName'', JStr ''fn''), (''payload'', JObj [(''x'', JNum 1)])])"]
    by (simp add: go_mock_def js_mock_def)
  have none: "callFunction (js_mock (replay (Response 200 ''null'' None) []))
      \<lparr>apiKey = ''key'', baseURL = ''http://localhost:8080/v1/super''\<rparr>
      ''app1'' ''app2'' ''fn'' [(''big'', JOther ''BigInt'')] []
   = (Inl (ErrorObj ''TypeError'' ''Do not know how to serialize a BigInt''), [])"
    using callFunction_posts_once
      [where env = "go_mock (replay (Response 200 ''null'' None) [])"
         and sdk = "\<lparr>APIKey = ''key'', BaseURL = ''http://localhost:8080/v1/super''\<rparr>"
         and caller = "''app1''" and targetApp = "''app2''" and functionName = "''fn''"
         and payload = "[(''big'', JOther ''BigInt'')]" and tr = "[]" and url = "[]" and e = "[]"
         and x = "ErrorObj ''TypeError'' ''Do not know how to serialize a BigInt''"
         and js = "js_mock (replay (Response 200 ''null'' None) [])"
         and this = "\<lparr>apiKey = ''key'', baseURL = ''http://localhost:8080/v1/super''\<rparr>"
         and b = "[]"]
    by (simp add: js_mock_def)
  show ?thesis using one none by simp
qed

text \<open>
  The claim as written fails twice: \<^verbatim>\<open>CallFunction\<close> of \<^verbatim>\<open>src/go/main.go\<close> sends the
  field \<^verbatim>\<open>url\<close>, and a payload that holds a channel is refused by the encoder, so that
  no request is made.
\<close>

theorem CallFunction_go_main_sends_url:
  "sent (snd (CallFunction_go_main (go_mock (replay (Response 200 ''null'' None) []))
      \<lparr>APIKey = ''key'', BaseURL = ''http://localhost:8080/v1/super''\<rparr>
      ''http://b.test:4000'' ''a'' ''b'' ''f'' [] []))
   = [POST ''http://localhost:8080/v1/super/call-function''
        ''{\"url\":\"http://b.test:4000\",\"caller\":\"a\",\"targetApp\":\"b\",\"functionName\":\"f\",\"payload\":{}}''
        (Some 10000)] \<and>
   CallFunction (go_mock (replay (Response 200 ''null'' None) []))
      \<lparr>APIKey = ''key'', BaseURL = ''http://localhost:8080/v1/super''\<rparr>
      ''a'' ''b'' ''f'' [(''reply'', JOther ''chan int'')] []
   = (Inl (ErrorString ''error encoding request JSON: json: unsupported type''), [])"
  by (simp add: CallFunction_go_main_def CallFunction_def CallFunction_request_def http_call_def
        POST_def go_mock_def replay_def sample_parse_def Let_def)

text \<open>
  Claim C6. When the host answers with a non-success status and the body is read,
  \<^verbatim>\<open>callFunction\<close> returns no result and fails with an error whose message holds the
  decimal status code and the body text. Non-success is any status but 200 in Go and
  any status outside 200 to 299 in TypeScript.
\<close>

theorem callFunction_reports_status_and_body:
  "(json_Marshal env (JObj [(''caller'', JStr caller), (''targetApp'', JStr targetApp),
                (''functionName'', JStr functionName), (''payload'', JObj payload)]) = (b, None) \<and>
    http_NewRequest env ''POST'' (BaseURL sdk @ ''/call-function'') = None \<and>
    RoundTrip env (sent tr) (POST (BaseURL sdk @ ''/call-function'') b (Some 10000)) = Response status body None \<and>
    status \<noteq> 200
    \<longrightarrow> (\<exists>msg. fst (CallFunction env sdk caller targetApp functionName payload tr) = Inl (ErrorString msg) \<and>
           sublist (itoa status) msg \<and> sublist body msg)) \<and>
   (json_Marshal env (JObj [(''url'', JStr url), (''caller'', JStr caller), (''targetApp'', JStr targetApp),
                (''functionName'', JStr functionName), (''payload'', JObj payload)]) = (b, None) \<and>
    http_NewRequest env ''POST'' (BaseURL sdk @ ''/call-function'') = None \<and>
    RoundTrip env (sent tr) (POST (BaseURL sdk @ ''/call-function'') b (Some 10000)) = Response status body None \<and>
    status \<noteq> 200
    \<longrightarrow> (\<exists>msg. fst (CallFunction_go_main env sdk url caller targetApp functionName payload tr) = Inl (ErrorString msg) \<and>
           sublist (itoa status) msg \<and> sublist body msg)) \<and>
   (JSON_stringify js (JObj [(''caller'', JStr caller), (''targetApp'', JStr targetApp),
                (''functionName'', JStr functionName), (''payload'', JObj payload)]) = Inr b \<and>
    fetch js (sent tr) (POST (baseURL this @ ''/call-function'') b (Some 10000)) = Response status body None \<and>
    \<not> ok status
    \<longrightarrow> (\<exists>msg. fst (callFunction js this caller targetApp functionName payload tr) = Inl (ErrorObj ''Error'' msg) \<and>
           sublist (itoa status) msg \<and> sublist body msg))"
proof -
  have ts: "(JSON_stringify js (JObj [(''caller'', JStr caller), (''targetApp'', JStr targetApp),
                (''functionName'', JStr functionName), (''payload'', JObj payload)]) = Inr b \<and>
    fetch js (sent tr) (POST (baseURL this @ ''/call-function'') b (Some 10000)) = Response status body None \<and>
    \<not> ok status
    \<longrightarrow> (\<exists>msg. fst (callFunction js this caller targetApp functionName payload tr) = Inl (ErrorObj ''Error'' msg) \<and>
           sublist (itoa status) msg \<and> sublist body msg))"
    using callFunction_non_ok by blast
  show ?thesis
    unfolding CallFunction_def CallFunction_go_main_def
    using CallFunction_request_non_ok
            [of env "JObj [(''caller'', JStr caller), (''targetApp'', JStr targetApp),
                (''functionName'', JStr functionName), (''payload'', JObj payload)]" b sdk tr status body targetApp functionName]
          CallFunction_request_non_ok
            [of env "JObj [(''url'', JStr url), (''caller'', JStr caller), (''targetApp'', JStr targetApp),
                (''functionName'', JStr functionName), (''payload'', JObj payload)]" b sdk tr status body targetApp functionName]
          ts
    by blast
qed

theorem callFunction_reports_status_and_body_witness:
  "(\<exists>msg. fst (CallFunction (go_mock (replay (Response 500 ''internal error'' None) []))
             \<lparr>APIKey = ''key'', BaseURL = ''http://localhost:8080/v1/super''\<rparr> ''app1'' ''app2'' ''fn'' [(''x'', JNum 1)] []) = Inl (ErrorString msg) \<and>
          sublist ''500'' msg \<and> sublist ''internal error'' msg) \<and>
   (\<exists>msg. fst (callFunction (js_mock (replay (Response 500 ''internal error'' None) []))
             \<lparr>apiKey = ''key'', baseURL = ''http://localhost:8080/v1/super''\<rparr> ''app1'' ''app2'' ''fn'' [(''x'', JNum 1)] []) = Inl (ErrorObj ''Error'' msg) \<and>
          sublist ''500'' msg \<and> sublist ''internal error'' msg)"
proof -
  have d: "itoa 500 = ''500''"
    by (simp add: itoa_def digits.simps)
  show ?thesis
    using callFunction_reports_status_and_body
      [where env = "go_mock (replay (Response 500 ''internal error'' None) [])"
         and sdk = "\<lparr>APIKey = ''key'', BaseURL = ''http://localhost:8080/v1/super''\<rparr>"
         and caller = "''app1''" and targetApp = "''app2''" and functionName = "''fn''"
         and payload = "[(''x'', JNum 1)]" and tr = "[]" and url = "[]"
         and js = "js_mock (replay (Response 500 ''internal error'' None) [])"
         and this = "\<lparr>apiKey = ''key'', baseURL = ''http://localhost:8080/v1/super''\<rparr>"
         and b = "render (JObj [(''caller'', JStr ''app1''), (''targetApp'', JStr ''app2''),
                       (''functionName'', JStr ''fn''), (''payload'', JObj [(''x'', JNum 1)])])"
         and status = 500 and body = "''internal error''"]
    by (simp add: go_mock_def js_mock_def replay_def ok_def d)
qed

text \<open>
  Claim C7, as the code has it. When the host answers 200 (TypeScript: any 2xx status)
  and the JSON decoder rejects the body, \<^verbatim>\<open>callFunction\<close> fails with a decode error
  whose message differs from every non-success-status message; when the decoder accepts
  the body, \<^verbatim>\<open>callFunction\<close> returns what was decoded: in Go the map that
  \<^verbatim>\<open>json.Unmarshal\<close> filled, in TypeScript the value of \<^verbatim>\<open>JSON.parse\<close>, whether it is an
  object or not.
\<close>

theorem callFunction_decodes_body:
  "(json_Marshal env (JObj [(''caller'', JStr caller), (''targetApp'', JStr targetApp),
                (''functionName'', JStr functionName), (''payload'', JObj payload)]) = (b, None) \<and>
    http_NewRequest env ''POST'' (BaseURL sdk @ ''/call-function'') = None \<and>
    RoundTrip env (sent tr) (POST (BaseURL sdk @ ''/call-function'') b (Some 10000)) = Response 200 body None
    \<longrightarrow> (json_Unmarshal env body = (m, Some e)
          \<longrightarrow> fst (CallFunction env sdk caller targetApp functionName payload tr) = Inl (ErrorString (''error decoding response JSON: '' @ e)) \<and>
              (\<forall>st bd. fst (CallFunction env sdk caller targetApp functionName payload tr) \<noteq>
                 Inl (ErrorString (''server returned non-OK status: '' @ itoa st @ '' - '' @ bd)))) \<and>
        (json_Unmarshal env body = (m, None) \<longrightarrow> fst (CallFunction env sdk caller targetApp functionName payload tr) = Inr m)) \<and>
   (json_Marshal env (JObj [(''url'', JStr url), (''caller'', JStr caller), (''targetApp'', JStr targetApp),
                (''functionName'', JStr functionName), (''payload'', JObj payload)]) = (b, None) \<and>
    http_NewRequest env ''POST'' (BaseURL sdk @ ''/call-function'') = None \<and>
    RoundTrip env (sent tr) (POST (BaseURL sdk @ ''/call-function'') b (Some 10000)) = Response 200 body None
    \<longrightarrow> (json_Unmarshal env body = (m, Some e)
          \<longrightarrow> fst (CallFunction_go_main env sdk url caller targetApp functionName payload tr) = Inl (ErrorString (''error decoding response JSON: '' @ e)) \<and>
              (\<forall>st bd. fst (CallFunction_go_main env sdk url caller targetApp functionName payload tr) \<noteq>
                 Inl (ErrorString (''server returned non-OK status: '' @ itoa st @ '' - '' @ bd)))) \<and>
        (json_Unmarshal env body = (m, None) \<longrightarrow> fst (CallFunction_go_main env sdk url caller targetApp functionName payload tr) = Inr m)) \<and>
   (JSON_stringify js (JObj [(''caller'', JStr caller), (''targetApp'', JStr targetApp),
                (''functionName'', JStr functionName), (''payload'', JObj payload)]) = Inr b \<and>
    fetch js (sent tr) (POST (baseURL this @ ''/call-function'') b (Some 10000)) = Response status body None \<and>
    ok status
    \<longrightarrow> (JSON_parse js body = Inl pe
          \<longrightarrow> fst (callFunction js this caller targetApp functionName payload tr) = Inl (ErrorObj ''Error'' (''Error parsing response JSON: '' @ String_of pe)) \<and>
              (\<forall>st bd. fst (callFunction js this caller targetApp functionName payload tr) \<noteq>
                 Inl (ErrorObj ''Error'' (''Server returned non-OK status: '' @ itoa st @ '' - '' @ bd)))) \<and>
        (JSON_parse js body = Inr v \<longrightarrow> fst (callFunction js this caller targetApp functionName payload tr) = Inr v))"
proof -
  have ts: "(JSON_stringify js (JObj [(''caller'', JStr caller), (''targetApp'', JStr targetApp),
                (''functionName'', JStr functionName), (''payload'', JObj payload)]) = Inr b \<and>
    fetch js (sent tr) (POST (baseURL this @ ''/call-function'') b (Some 10000)) = Response status body None \<and>
    ok status
    \<longrightarrow> (JSON_parse js body = Inl pe
          \<longrightarrow> fst (callFunction js this caller targetApp functionName payload tr) = Inl (ErrorObj ''Error'' (''Error parsing response JSON: '' @ String_of pe)) \<and>
              (\<forall>st bd. fst (callFunction js this caller targetApp functionName payload tr) \<noteq>
                 Inl (ErrorObj ''Error'' (''Server returned non-OK status: '' @ itoa st @ '' - '' @ bd)))) \<and>
        (JSON_parse js body = Inr v \<longrightarrow> fst (callFunction js this caller targetApp functionName payload tr) = Inr v))"
    by (simp add: callFunction_encoded Let_def)
  show ?thesis
    unfolding CallFunction_def CallFunction_go_main_def
    using CallFunction_request_decodes
            [of env "JObj [(''caller'', JStr caller), (''targetApp'', JStr targetApp),
                (''functionName'', JStr functionName), (''payload'', JObj payload)]" b sdk tr body m e targetApp functionName]
          CallFunction_request_decodes
            [of env "JObj [(''url'', JStr url), (''caller'', JStr caller), (''targetApp'', JStr targetApp),
                (''functionName'', JStr functionName), (''payload'', JObj payload)]" b sdk tr body m e targetApp functionName]
          ts
    by blast
qed

theorem callFunction_decodes_body_witness:
  "fst (CallFunction (go_mock (replay (Response 200 ''not-json'' None) []))
         \<lparr>APIKey = ''key'', BaseURL = ''http://localhost:8080/v1/super''\<rparr> ''app1'' ''app2'' ''fn'' [(''x'', JNum 1)] [])
     = Inl (ErrorString ''error decoding response JSON: invalid character'') \<and>
   fst (callFunction (js_mock (replay (Response 200 ''not-json'' None) []))
         \<lparr>apiKey = ''key'', baseURL = ''http://localhost:8080/v1/super''\<rparr> ''app1'' ''app2'' ''fn'' [(''x'', JNum 1)] [])
     = Inl (ErrorObj ''Error'' ''Error parsing response JSON: SyntaxError: Unexpected token'') \<and>
   fst (CallFunction (go_mock (replay (Response 200 ''{\"result\":42}'' None) []))
         \<lparr>APIKey = ''key'', BaseURL = ''http://localhost:8080/v1/super''\<rparr> ''app1'' ''app2'' ''fn'' [(''x'', JNum 1)] [])
     = Inr (Some [(''result'', JNum 42)])"
proof -
  have p: "sample_parse ''not-json'' = None"
    "sample_parse ''{\"result\":42}'' = Some (JObj [(''result'', JNum 42)])"
    by (simp_all add: sample_parse_def itoa_def digits.simps)
  have bad: "fst (CallFunction (go_mock (replay (Response 200 ''not-json'' None) []))
         \<lparr>APIKey = ''key'', BaseURL = ''http://localhost:8080/v1/super''\<rparr> ''app1'' ''app2'' ''fn'' [(''x'', JNum 1)] [])
     = Inl (ErrorString ''error decoding response JSON: invalid character'') \<and>
   fst (callFunction (js_mock (replay (Response 200 ''not-json'' None) []))
         \<lparr>apiKey = ''key'', baseURL = ''http://localhost:8080/v1/super''\<rparr> ''app1'' ''app2'' ''fn'' [(''x'', JNum 1)] [])
     = Inl (ErrorObj ''Error'' ''Error parsing response JSON: SyntaxError: Unexpected token'')"
    using callFunction_decodes_body
      [where env = "go_mock (replay (Response 200 ''not-json'' None) [])"
         and sdk = "\<lparr>APIKey = ''key'', BaseURL = ''http://localhost:8080/v1/super''\<rparr>"
         and caller = "''app1''" and targetApp = "''app2''" and functionName = "''fn''"
         and payload = "[(''x'', JNum 1)]" and tr = "[]" and url = "[]"
         and js = "js_mock (replay (Response 200 ''not-json'' None) [])"
         and this = "\<lparr>apiKey = ''key'', baseURL = ''http://localhost:8080/v1/super''\<rparr>"
         and b = "render (JObj [(''caller'', JStr ''app1''), (''targetApp'', JStr ''app2''),
                       (''functionName'', JStr ''fn''), (''payload'', JObj [(''x'', JNum 1)])])"
         and status = 200 and body = "''not-json''" and m = None and e = "''invalid character''"
         and pe = "ErrorObj ''SyntaxError'' ''Unexpected token''" and v = JNull]
    by (simp add: go_mock_def js_mock_def replay_def ok_def p)
  have good: "fst (CallFunction (go_mock (replay (Response 200 ''{\"result\":42}'' None) []))
         \<lparr>APIKey = ''key'', BaseURL = ''http://localhost:8080/v1/super''\<rparr> ''app1'' ''app2'' ''fn'' [(''x'', JNum 1)] [])
     = Inr (Some [(''result'', JNum 42)])"
    using callFunction_decodes_body
      [where env = "go_mock (replay (Response 200 ''{\"result\":42}'' None) [])"
         and sdk = "\<lparr>APIKey = ''key'', BaseURL = ''http://localhost:8080/v1/super''\<rparr>"
         and caller = "''app1''" and targetApp = "''app2''" and functionName = "''fn''"
         and payload = "[(''x'', JNum 1)]" and tr = "[]" and url = "[]"
         and js = "js_mock (replay (Response 200 ''{\"result\":42}'' None) [])"
         and this = "\<lparr>apiKey = ''key'', baseURL = ''http://localhost:8080/v1/super''\<rparr>"
         and b = "render (JObj [(''caller'', JStr ''app1''), (''targetApp'', JStr ''app2''),
                       (''functionName'', JStr ''fn''), (''payload'', JObj [(''x'', JNum 1)])])"
         and status = 200 and body = "''{\"result\":42}''" and m = "Some [(''result'', JNum 42)]"
         and e = "[]" and pe = "Thrown []" and v = JNull]
    by (simp add: go_mock_def js_mock_def replay_def ok_def p)
  show ?thesis using bad good by simp
qed

text \<open>
  The claim as written (every body that is not a JSON object is a decode error) fails:
  the TypeScript \<^verbatim>\<open>callFunction\<close> returns the array decoded from \<^verbatim>\<open>[]\<close>; the Go
  \<^verbatim>\<open>CallFunction\<close> returns a nil map and no error for the body \<^verbatim>\<open>null\<close>, which
  \<^verbatim>\<open>json.Unmarshal\<close> accepts for a map; and for Go the status 201 is not a success.
\<close>

theorem callFunction_returns_non_objects:
  "callFunction (js_mock (replay (Response 200 ''[]'' None) []))
         \<lparr>apiKey = ''key'', baseURL = ''http://localhost:8080/v1/super''\<rparr> ''app1'' ''app2'' ''fn'' [] []
     = (Inr (JArr []),
        [Logged (Calling ''app2'' ''fn'' ''{\"caller\":\"app1\",\"targetApp\":\"app2\",\"functionName\":\"fn\",\"payload\":{}}''),
         Sent (POST ''http://localhost:8080/v1/super/call-function''
                 ''{\"caller\":\"app1\",\"targetApp\":\"app2\",\"functionName\":\"fn\",\"payload\":{}}'' (Some 10000)),
         Logged (RawResponse ''[]'')]) \<and>
   fst (CallFunction (go_mock (replay (Response 200 ''null'' None) []))
         \<lparr>APIKey = ''key'', BaseURL = ''http://localhost:8080/v1/super''\<rparr> ''app1'' ''app2'' ''fn'' [] [])
     = Inr None \<and>
   fst (CallFunction (go_mock (replay (Response 201 ''not-json'' None) []))
         \<lparr>APIKey = ''key'', BaseURL = ''http://localhost:8080/v1/super''\<rparr> ''app1'' ''app2'' ''fn'' [] [])
     = Inl (ErrorString ''server returned non-OK status: 201 - not-json'')"
  by (simp add: callFunction_def callFunction_try_def CallFunction_def CallFunction_request_def
        http_call_def POST_def js_mock_def go_mock_def replay_def ok_def sample_parse_def Let_def
        itoa_def digits.simps)




section \<open>The API key\<close>

text \<open>
  Claim C9. Two clients constructed with different API keys, in the same environment,
  leave the same trace in discovery (requests, sleeps and log lines), and
  \<^verbatim>\<open>register\<close> and \<^verbatim>\<open>callFunction\<close> on them return the same result and the same
  trace: nothing the SDK sends or returns depends on the key.
\<close>

theorem apiKey_never_sent:
  "snd (NewSuperAppSDK env k1 tr) = snd (NewSuperAppSDK env k2 tr) \<and>
   Register env (fst (NewSuperAppSDK env k1 tr)) appName funcs appURL tr' =
   Register env (fst (NewSuperAppSDK env k2 tr)) appName funcs appURL tr' \<and>
   Register_go_main env (fst (NewSuperAppSDK env k1 tr)) appName funcs tr' =
   Register_go_main env (fst (NewSuperAppSDK env k2 tr)) appName funcs tr' \<and>
   CallFunction env (fst (NewSuperAppSDK env k1 tr)) caller targetApp functionName payload tr' =
   CallFunction env (fst (NewSuperAppSDK env k2 tr)) caller targetApp functionName payload tr' \<and>
   CallFunction_go_main env (fst (NewSuperAppSDK env k1 tr)) url caller targetApp functionName payload tr' =
   CallFunction_go_main env (fst (NewSuperAppSDK env k2 tr)) url caller targetApp functionName payload tr' \<and>
   snd (create js k1 tr) = snd (create js k2 tr) \<and>
   register js (fst (create js k1 tr)) appName funcs appURL tr' =
   register js (fst (create js k2 tr)) appName funcs appURL tr' \<and>
   callFunction js (fst (create js k1 tr)) caller targetApp functionName payload tr' =
   callFunction js (fst (create js k2 tr)) caller targetApp functionName payload tr'"
proof -
  have go: "BaseURL (fst (NewSuperAppSDK env k1 tr)) = BaseURL (fst (NewSuperAppSDK env k2 tr))"
    using NewSuperAppSDK_APIKey by blast
  have ts: "baseURL (fst (create js k1 tr)) = baseURL (fst (create js k2 tr))"
    using initialize_apiKey by blast
  show ?thesis
    unfolding Register_def Register_go_main_def CallFunction_def CallFunction_go_main_def register_def
    using NewSuperAppSDK_APIKey [of env k1 tr k2] initialize_apiKey [of js k1 tr k2]
      Register_attempts_BaseURL [OF go] CallFunction_request_BaseURL [OF go]
      register_attempts_baseURL [OF ts] callFunction_baseURL [OF ts]
    by simp
qed

theorem apiKey_never_sent_witness:
  "snd (NewSuperAppSDK (go_mock (replay (Response 200 ''ok'' None) [])) ''alpha'' []) =
   snd (NewSuperAppSDK (go_mock (replay (Response 200 ''ok'' None) [])) ''beta'' []) \<and>
   Register (go_mock (replay (Response 200 ''ok'' None) []))
     (fst (NewSuperAppSDK (go_mock (replay (Response 200 ''ok'' None) [])) ''alpha'' []))
     ''mini'' [''f''] ''http://x.test:3000/'' [] =
   Register (go_mock (replay (Response 200 ''ok'' None) []))
     (fst (NewSuperAppSDK (go_mock (replay (Response 200 ''ok'' None) [])) ''beta'' []))
     ''mini'' [''f''] ''http://x.test:3000/'' [] \<and>
   callFunction (js_mock (replay (Response 200 ''ok'' None) []))
     (fst (create (js_mock (replay (Response 200 ''ok'' None) [])) ''alpha'' []))
     ''app1'' ''app2'' ''fn'' [] [] =
   callFunction (js_mock (replay (Response 200 ''ok'' None) []))
     (fst (create (js_mock (replay (Response 200 ''ok'' None) [])) ''beta'' []))
     ''app1'' ''app2'' ''fn'' [] []"
  using apiKey_never_sent
    [where env = "go_mock (replay (Response 200 ''ok'' None) [])"
       and js = "js_mock (replay (Response 200 ''ok'' None) [])"
       and ?k1.0 = "''alpha''" and ?k2.0 = "''beta''" and tr = "[]" and tr' = "[]"
       and appName = "''mini''" and funcs = "[''f'']" and appURL = "''http://x.test:3000/''"
       and caller = "''app1''" and targetApp = "''app2''" and functionName = "''fn''"
       and payload = "[]" and url = "[]"]
  by simp

end
